theory Spec2Isabelle
  imports Main
begin

section \<open>Fee records and calendar dates\<close>

text \<open>
  A JavaScript \<open>Date\<close> is modelled by its local calendar fields: the full year, the
  month index (0 is January), the day of the month and the milliseconds since local
  midnight. Dates are compared field by field, most significant first, which is the
  order of the underlying time values.
\<close>

record date =
  fullYear :: int
  monthIdx :: nat
  dayOfMonth :: nat
  msOfDay :: nat

definition date_lt :: "date \<Rightarrow> date \<Rightarrow> bool" where
  "date_lt a b =
     (fullYear a < fullYear b \<or>
      (fullYear a = fullYear b \<and>
       (monthIdx a < monthIdx b \<or>
        (monthIdx a = monthIdx b \<and>
         (dayOfMonth a < dayOfMonth b \<or>
          (dayOfMonth a = dayOfMonth b \<and> msOfDay a < msOfDay b))))))"

definition date_le :: "date \<Rightarrow> date \<Rightarrow> bool" where
  "date_le a b = (date_lt a b \<or> a = b)"

definition isLeapYear :: "int \<Rightarrow> bool" where
  "isLeapYear y = (y mod 4 = 0 \<and> (y mod 100 \<noteq> 0 \<or> y mod 400 = 0))"

definition daysInMonth :: "int \<Rightarrow> nat \<Rightarrow> nat" where
  "daysInMonth y m =
     (if m = 1 then (if isLeapYear y then 29 else 28)
      else if m = 3 \<or> m = 5 \<or> m = 8 \<or> m = 10 then 30
      else 31)"

text \<open>\<open>new Date(y, m, 1)\<close>: local midnight of the first day of the month.\<close>

definition startOfMonth :: "date \<Rightarrow> date" where
  "startOfMonth d =
     \<lparr>fullYear = fullYear d, monthIdx = monthIdx d, dayOfMonth = 1, msOfDay = 0\<rparr>"

text \<open>
  \<open>new Date(y, m + 1, 0)\<close>: day 0 of the next month, which JavaScript normalises to
  local midnight of the last day of month \<open>m\<close>.
\<close>

definition lastDayOfMonth :: "date \<Rightarrow> date" where
  "lastDayOfMonth d =
     \<lparr>fullYear = fullYear d, monthIdx = monthIdx d,
      dayOfMonth = daysInMonth (fullYear d) (monthIdx d), msOfDay = 0\<rparr>"

text \<open>
  A JavaScript \<open>Number\<close> is an IEEE double. The type of the numbers and the operations
  the code applies to them are parameters of the model: the number \<open>0\<close>, \<open>a + b\<close>,
  \<open>a - b\<close>, \<open>a === 0\<close>, \<open>a < b\<close>, \<open>a >= b\<close> and the truthiness of a number (what
  \<open>a || 0\<close> tests). Every theorem below holds for each reading of them, the doubles with
  their rounding, \<open>NaN\<close> and infinities included.
\<close>

record 'n number_ops =
  numZero :: 'n
  numAdd :: "'n \<Rightarrow> 'n \<Rightarrow> 'n"
  numSub :: "'n \<Rightarrow> 'n \<Rightarrow> 'n"
  numIsZero :: "'n \<Rightarrow> bool"
  numLess :: "'n \<Rightarrow> 'n \<Rightarrow> bool"
  numGeq :: "'n \<Rightarrow> 'n \<Rightarrow> bool"
  numTruthy :: "'n \<Rightarrow> bool"

datatype fee_status = Paid | Unpaid | Partial | Overdue

record 'n fee =
  fee_id :: nat
  student :: nat
  feeType :: string
  amount :: 'n
  dueDate :: date
  paymentDate :: "date option"
  status :: fee_status
  paidAmount :: 'n
  remainingAmount :: 'n
  arrears :: 'n
  recordedBy :: nat

subsection \<open>The pre-save hook of the Fee schema\<close>

text \<open>\<open>this.paymentDate || Date.now()\<close>\<close>

definition paymentDateOrNow :: "date \<Rightarrow> 'n fee \<Rightarrow> date option" where
  "paymentDateOrNow now f = (case paymentDate f of Some d \<Rightarrow> Some d | None \<Rightarrow> Some now)"

text \<open>
  First block of the hook. \<open>modStatus\<close> is the answer of \<open>this.isModified('status')\<close>.
\<close>

definition explicitPaid :: "'n number_ops \<Rightarrow> bool \<Rightarrow> date \<Rightarrow> 'n fee \<Rightarrow> 'n fee" where
  "explicitPaid ops modStatus now f =
     (if modStatus \<and> status f = Paid
      then f\<lparr>paidAmount := amount f, remainingAmount := numZero ops,
             paymentDate := paymentDateOrNow now f\<rparr>
      else f)"

text \<open>
  Second block. \<open>modPaid\<close> is the answer of \<open>this.isModified('paidAmount')\<close> at that
  point of the hook, that is after the assignment the first block may have made.
\<close>

definition paidAmountChanged :: "'n number_ops \<Rightarrow> bool \<Rightarrow> date \<Rightarrow> 'n fee \<Rightarrow> 'n fee" where
  "paidAmountChanged ops modPaid now f =
     (if modPaid
      then (let g = f\<lparr>remainingAmount := numSub ops (amount f) (paidAmount f)\<rparr>
            in if numIsZero ops (paidAmount g) then g\<lparr>status := Unpaid\<rparr>
               else if numLess ops (paidAmount g) (amount g) then g\<lparr>status := Partial\<rparr>
               else if numGeq ops (paidAmount g) (amount g)
                    then g\<lparr>status := Paid, paymentDate := paymentDateOrNow now g\<rparr>
               else g)
      else f)"

text \<open>Third block: the overdue check.\<close>

definition overdueCheck :: "date \<Rightarrow> 'n fee \<Rightarrow> 'n fee" where
  "overdueCheck now f =
     (if status f \<noteq> Paid \<and> date_lt (dueDate f) now \<and> status f \<noteq> Overdue
      then f\<lparr>status := Overdue\<rparr>
      else f)"

definition preSave :: "'n number_ops \<Rightarrow> bool \<Rightarrow> bool \<Rightarrow> date \<Rightarrow> 'n fee \<Rightarrow> 'n fee" where
  "preSave ops modStatus modPaid now f =
     overdueCheck now (paidAmountChanged ops modPaid now (explicitPaid ops modStatus now f))"

subsection \<open>Arrears\<close>

text \<open>
  The fee collection is the list of its documents in natural order.
  \<open>Fee.find\<close> with the filter of \<open>calculateStudentArrears\<close>.
\<close>

definition previousFees :: "'n fee list \<Rightarrow> nat \<Rightarrow> date \<Rightarrow> 'n fee list" where
  "previousFees fees sid startOfCurrentMonth =
     filter (\<lambda>f. student f = sid \<and> date_lt (dueDate f) startOfCurrentMonth \<and>
                 status f \<in> set [Unpaid, Partial, Overdue]) fees"

text \<open>The body of the \<open>forEach\<close>, adding one fee to the running total.\<close>

definition addArrears :: "'n number_ops \<Rightarrow> 'n fee \<Rightarrow> 'n \<Rightarrow> 'n" where
  "addArrears ops f totalArrears =
     (if status f = Partial then numAdd ops totalArrears (remainingAmount f)
      else numAdd ops totalArrears (amount f))"

text \<open>
  A missing student id (\<open>null\<close>, \<open>undefined\<close>) is \<open>None\<close>. The store is \<open>Some\<close> of the
  collection, or \<open>None\<close> when the query \<open>Fee.find\<close> throws: the \<open>catch\<close> then returns 0.
\<close>

definition calculateStudentArrears ::
  "'n number_ops \<Rightarrow> 'n fee list option \<Rightarrow> date \<Rightarrow> nat option \<Rightarrow> 'n" where
  "calculateStudentArrears ops store currentDate studentId =
     (case studentId of
        None \<Rightarrow> numZero ops
      | Some sid \<Rightarrow>
          if monthIdx currentDate = 4 \<and> fullYear currentDate = 2025 then numZero ops
          else (case store of
                  None \<Rightarrow> numZero ops
                | Some fees \<Rightarrow>
                    fold (addArrears ops) (previousFees fees sid (startOfMonth currentDate))
                      (numZero ops)))"

subsection \<open>Initial fee record\<close>

text \<open>
  \<open>Fee.findOne\<close> for a tuition fee of the student due within the current month.
\<close>

definition dueThisMonth :: "nat \<Rightarrow> date \<Rightarrow> 'n fee \<Rightarrow> bool" where
  "dueThisMonth sid currentDate f =
     (student f = sid \<and> feeType f = ''tuition'' \<and>
      date_le (startOfMonth currentDate) (dueDate f) \<and>
      date_le (dueDate f) (lastDayOfMonth currentDate))"

definition findExistingFee :: "'n fee list \<Rightarrow> nat \<Rightarrow> date \<Rightarrow> 'n fee option" where
  "findExistingFee fees sid currentDate = find (dueThisMonth sid currentDate) fees"

text \<open>
  The fields of \<open>feeData\<close> that the schema knows, written onto a document
  (\<open>description\<close> is not a path of the schema and is dropped).
\<close>

definition setFeeData :: "nat \<Rightarrow> 'n \<Rightarrow> date \<Rightarrow> nat \<Rightarrow> 'n \<Rightarrow> 'n fee \<Rightarrow> 'n fee" where
  "setFeeData sid amt due rid arr f =
     f\<lparr>student := sid, feeType := ''tuition'', amount := amt, dueDate := due,
       status := Unpaid, recordedBy := rid, arrears := arr\<rparr>"

text \<open>
  \<open>Fee.findByIdAndUpdate(id, feeData, {new: true})\<close>: the document with that id is
  updated in place, no save hook runs, and the updated document is returned.
\<close>

fun findByIdAndUpdate ::
  "nat \<Rightarrow> ('n fee \<Rightarrow> 'n fee) \<Rightarrow> 'n fee list \<Rightarrow> 'n fee option \<times> 'n fee list" where
  "findByIdAndUpdate i upd [] = (None, [])"
| "findByIdAndUpdate i upd (f # fs) =
     (if fee_id f = i then (Some (upd f), upd f # fs)
      else (case findByIdAndUpdate i upd fs of (r, fs') \<Rightarrow> (r, f # fs')))"

text \<open>A fresh document id: larger than every id in the collection.\<close>

definition freshId :: "'n fee list \<Rightarrow> nat" where
  "freshId fees = Suc (fold max (map fee_id fees) 0)"

text \<open>
  \<open>Fee.create(feeData)\<close>: the schema defaults fill \<open>paidAmount\<close> (0) and
  \<open>remainingAmount\<close> (the amount); the save hook runs with \<open>status\<close> set by the caller
  and \<open>paidAmount\<close> left to its default, which is not a modification; the document is
  appended to the collection.
\<close>

definition Fee_create ::
  "'n number_ops \<Rightarrow> date \<Rightarrow> nat \<Rightarrow> 'n \<Rightarrow> date \<Rightarrow> nat \<Rightarrow> 'n \<Rightarrow> 'n fee list \<Rightarrow>
   'n fee \<times> 'n fee list" where
  "Fee_create ops now sid amt due rid arr fees =
     (let doc = preSave ops True False now
                  \<lparr>fee_id = freshId fees, student = sid, feeType = ''tuition'', amount = amt,
                   dueDate = due, paymentDate = None, status = Unpaid,
                   paidAmount = numZero ops,
                   remainingAmount = amt, arrears = arr, recordedBy = rid\<rparr>
      in (doc, fees @ [doc]))"

text \<open>
  \<open>monthlyFeeAmount || 0\<close>: a missing amount, and a falsy one, is 0.
\<close>

definition amountOrZero :: "'n number_ops \<Rightarrow> 'n option \<Rightarrow> 'n" where
  "amountOrZero ops monthlyFeeAmount =
     (case monthlyFeeAmount of
        None \<Rightarrow> numZero ops
      | Some a \<Rightarrow> if numTruthy ops a then a else numZero ops)"

definition createInitialFeeRecord ::
  "'n number_ops \<Rightarrow> 'n fee list \<Rightarrow> date \<Rightarrow> nat option \<Rightarrow> nat option \<Rightarrow> 'n option \<Rightarrow>
   'n fee option \<times> 'n fee list" where
  "createInitialFeeRecord ops fees currentDate studentId recordedById monthlyFeeAmount =
     (case (studentId, recordedById) of
        (Some sid, Some rid) \<Rightarrow>
          (let amt = amountOrZero ops monthlyFeeAmount;
               due = lastDayOfMonth currentDate;
               arr = calculateStudentArrears ops (Some fees) currentDate studentId
           in case findExistingFee fees sid currentDate of
                Some existingFee \<Rightarrow>
                  findByIdAndUpdate (fee_id existingFee) (setFeeData sid amt due rid arr) fees
              | None \<Rightarrow>
                  (case Fee_create ops currentDate sid amt due rid arr fees of
                     (doc, fees') \<Rightarrow> (Some doc, fees')))
      | _ \<Rightarrow> (None, fees))"

section \<open>Strings\<close>

text \<open>
  A JavaScript string is modelled as a list of characters with codes below 256.
\<close>

abbreviation DQUOTE :: char where "DQUOTE \<equiv> CHR 0x22"
abbreviation BACKSLASH :: char where "BACKSLASH \<equiv> CHR 0x5C"
abbreviation COMMA :: char where "COMMA \<equiv> CHR '',''"
abbreviation LPAREN :: char where "LPAREN \<equiv> CHR ''(''"
abbreviation LF :: char where "LF \<equiv> CHR 0x0A"
abbreviation CR :: char where "CR \<equiv> CHR 0x0D"

text \<open>
  The characters \<open>String.prototype.trim\<close> strips, among those below 256: tab, line
  feed, vertical tab, form feed, carriage return, space and no-break space.
\<close>

definition isSpace :: "char \<Rightarrow> bool" where
  "isSpace c = (c \<in> set [CHR 0x09, CHR 0x0A, CHR 0x0B, CHR 0x0C, CHR 0x0D, CHR '' '', CHR 0xA0])"

definition trim :: "string \<Rightarrow> string" where
  "trim s = rev (dropWhile isSpace (rev (dropWhile isSpace s)))"

text \<open>
  \<open>toLowerCase\<close> and \<open>toUpperCase\<close>, on the letters A to Z. The importer only looks at
  the results for the letters \<open>a-z\<close>, the digits and the upper-case words IMPORTANT, NOTE
  and INSTRUCTION; no other character below 256 turns into one of these letters in a way
  that changes those tests, so the other characters are left as they are.
\<close>

definition toLowerChar :: "char \<Rightarrow> char" where
  "toLowerChar c =
     (case map_of (zip ''ABCDEFGHIJKLMNOPQRSTUVWXYZ'' ''abcdefghijklmnopqrstuvwxyz'') c of
        Some l \<Rightarrow> l | None \<Rightarrow> c)"

definition toUpperChar :: "char \<Rightarrow> char" where
  "toUpperChar c =
     (case map_of (zip ''abcdefghijklmnopqrstuvwxyz'' ''ABCDEFGHIJKLMNOPQRSTUVWXYZ'') c of
        Some u \<Rightarrow> u | None \<Rightarrow> c)"

definition toLowerCase :: "string \<Rightarrow> string" where
  "toLowerCase s = map toLowerChar s"

definition toUpperCase :: "string \<Rightarrow> string" where
  "toUpperCase s = map toUpperChar s"

fun startsWith :: "string \<Rightarrow> string \<Rightarrow> bool" where
  "startsWith s [] = True"
| "startsWith [] (p # ps) = False"
| "startsWith (c # cs) (p # ps) = (c = p \<and> startsWith cs ps)"

definition endsWith :: "string \<Rightarrow> string \<Rightarrow> bool" where
  "endsWith s p = startsWith (rev s) (rev p)"

fun strIncludes :: "string \<Rightarrow> string \<Rightarrow> bool" where
  "strIncludes [] p = (p = [])"
| "strIncludes (c # cs) p = (startsWith (c # cs) p \<or> strIncludes cs p)"

text \<open>\<open>Array.prototype.join\<close>\<close>

fun joinWith :: "string \<Rightarrow> string list \<Rightarrow> string" where
  "joinWith sep [] = []"
| "joinWith sep [x] = x"
| "joinWith sep (x # y # ys) = x @ sep @ joinWith sep (y # ys)"

section \<open>Parsing an uploaded file\<close>

subsection \<open>The lines and values of a CSV file\<close>

text \<open>\<open>fileContent.split(/\\r?\\n/)\<close>\<close>

definition pushChar :: "char \<Rightarrow> string list \<Rightarrow> string list" where
  "pushChar c ls = (case ls of [] \<Rightarrow> [[c]] | l # rest \<Rightarrow> (c # l) # rest)"

fun splitLines :: "string \<Rightarrow> string list" where
  "splitLines [] = [[]]"
| "splitLines [c] = (if c = LF then [[], []] else [[c]])"
| "splitLines (c # d # cs) =
     (if c = LF then [] # splitLines (d # cs)
      else if c = CR \<and> d = LF then [] # splitLines cs
      else pushChar c (splitLines (d # cs)))"

text \<open>
  The character loop over one line. \<open>prev\<close> is \<open>line[i-1]\<close> (\<open>None\<close> when \<open>i = 0\<close>),
  \<open>row\<close> the values pushed so far.
\<close>

fun csvScan :: "char option \<Rightarrow> bool \<Rightarrow> string \<Rightarrow> string list \<Rightarrow> string \<Rightarrow> string list" where
  "csvScan prev inQuotes currentValue row [] = row @ [currentValue]"
| "csvScan prev inQuotes currentValue row (c # cs) =
     (if c = DQUOTE \<and> (prev = None \<or> prev \<noteq> Some BACKSLASH)
      then csvScan (Some c) (\<not> inQuotes) currentValue row cs
      else if c = COMMA \<and> \<not> inQuotes
      then csvScan (Some c) inQuotes [] (row @ [currentValue]) cs
      else csvScan (Some c) inQuotes (currentValue @ [c]) row cs)"

text \<open>
  Removing the quotes around a value: \<open>value.substring(1, value.length - 1)\<close>. For a
  value of length 1 the arguments are 1 and 0, which \<open>substring\<close> swaps, so the value
  comes back whole.
\<close>

definition removeQuotes :: "string \<Rightarrow> string" where
  "removeQuotes v =
     (if startsWith v [DQUOTE] \<and> endsWith v [DQUOTE]
      then (if length v = 1 then v else take (length v - 2) (drop 1 v))
      else v)"

definition parseCsvLine :: "string \<Rightarrow> string list" where
  "parseCsvLine line = map removeQuotes (csvScan None False [] [] line)"

definition csvRawData :: "string \<Rightarrow> string list list" where
  "csvRawData fileContent =
     map parseCsvLine (filter (\<lambda>line. trim line \<noteq> []) (splitLines fileContent))"

subsection \<open>The raw table\<close>

text \<open>
  A value of the raw table. A CSV file gives strings only. A spreadsheet cell may also
  hold a number, a boolean, a date or an object (rich text, a hyperlink, a formula). Of
  such a value the code observes whether it is truthy, the text \<open>String(value)\<close>, which
  is also \<open>value.toString()\<close>, and, when it has a \<open>richText\<close> property, the texts of its
  segments. It is not a string: \<open>value !== ''\<close> holds of it, and it has none of the
  methods of a string.
\<close>

datatype cell = Str string | NonString bool string "string list option"

fun cellTruthy :: "cell \<Rightarrow> bool" where
  "cellTruthy (Str s) = (s \<noteq> [])"
| "cellTruthy (NonString t x segments) = t"

fun cellString :: "cell \<Rightarrow> string" where
  "cellString (Str s) = s"
| "cellString (NonString t x segments) = x"

fun cellRichText :: "cell \<Rightarrow> string list option" where
  "cellRichText (Str s) = None"
| "cellRichText (NonString t x segments) = segments"

text \<open>
  What \<open>parseFile\<close> finds at the path: no file; a file with the extension \<open>.csv\<close>, and
  what \<open>fs.readFileSync\<close> gives for it; or a file with any other extension, and what
  \<open>workbook.xlsx.readFile\<close> gives for it. A read gives the message of the error it
  throws, or the content: the text of the CSV file, the worksheets of the workbook. Of a
  worksheet the code reads \<open>rowCount\<close> and, through \<open>eachRow({includeEmpty: false})\<close> and
  \<open>eachCell({includeEmpty: true})\<close>, the rows that have values, in order, each with its
  row number and the values of its cells (\<open>null\<close>, here \<open>None\<close>, for an empty cell).
\<close>

record worksheet =
  rowCount :: nat
  sheetRows :: "(nat \<times> cell option list) list"

datatype upload =
  Missing
| CsvFile "string + string"
| Spreadsheet "string + worksheet list"

text \<open>\<open>rowData.push(cell.value !== null ? cell.value : '')\<close> for every cell of every row.\<close>

definition sheetRawData :: "worksheet \<Rightarrow> cell list list" where
  "sheetRawData ws =
     map (\<lambda>r. map (\<lambda>v. case v of None \<Rightarrow> Str [] | Some c \<Rightarrow> c) (snd r)) (sheetRows ws)"

text \<open>
  The first part of the \<open>try\<close> block: the raw table \<open>rawData\<close>, or the message of the
  error thrown before it is complete.
\<close>

definition rawDataOf :: "upload \<Rightarrow> string + cell list list" where
  "rawDataOf up =
     (case up of
        Missing \<Rightarrow> Inl ''File not found. The uploaded file may have been deleted.''
      | CsvFile (Inl message) \<Rightarrow> Inl message
      | CsvFile (Inr fileContent) \<Rightarrow> Inr (map (map Str) (csvRawData fileContent))
      | Spreadsheet (Inl message) \<Rightarrow> Inl message
      | Spreadsheet (Inr worksheets) \<Rightarrow>
          (case worksheets of
             [] \<Rightarrow> Inl ''The uploaded Excel file has no sheets.''
           | ws # others \<Rightarrow>
               if rowCount ws < 2
               then Inl ''The uploaded Excel file contains an empty or invalid worksheet.''
               else Inr (sheetRawData ws)))"

subsection \<open>Headers\<close>

text \<open>
  The text of a header cell: \<open>header.richText.map(rt => rt.text).join('')\<close> when the
  cell has rich text, \<open>header.toString()\<close> otherwise.
\<close>

definition headerText :: "cell \<Rightarrow> string" where
  "headerText header =
     (case cellRichText header of
        Some segments \<Rightarrow> concat segments
      | None \<Rightarrow> cellString header)"

text \<open>
  Cleaning one header cell. A falsy cell gives the empty name. The regular expression
  \<open>/^([^(]+)/\<close> matches the longest non-empty prefix without an opening parenthesis,
  and fails when there is none; the whole text is then used.
\<close>

definition matchBeforeParen :: "string \<Rightarrow> string option" where
  "matchBeforeParen s =
     (let m = takeWhile (\<lambda>c. c \<noteq> LPAREN) s in if m = [] then None else Some m)"

definition cleanHeader :: "cell \<Rightarrow> string" where
  "cleanHeader header =
     (if \<not> cellTruthy header then []
      else (case matchBeforeParen (headerText header) of
              Some m \<Rightarrow> trim m
            | None \<Rightarrow> trim (headerText header)))"

subsection \<open>Data rows\<close>

text \<open>
  A data row is an object: its own keys, each with its value. \<open>obj[header] = value\<close>
  overwrites the value of a key that is already there, and adds the key otherwise, with
  one exception: for the header \<open>__proto__\<close> the assignment reaches the prototype
  accessor, which ignores a value that is not an object and makes an object the
  prototype of the row; either way the row gets no key of its own, and no property the
  importers read is one that a cell value has.
\<close>

type_synonym row = "(string \<times> cell) list"

fun setKey :: "string \<Rightarrow> cell \<Rightarrow> row \<Rightarrow> row" where
  "setKey k v [] = [(k, v)]"
| "setKey k v ((k', v') # kvs) = (if k' = k then (k, v) # kvs else (k', v') # setKey k v kvs)"

definition assign :: "string \<Rightarrow> cell \<Rightarrow> row \<Rightarrow> row" where
  "assign k v obj = (if k = ''__proto__'' then obj else setKey k v obj)"

text \<open>The test that a cell holds real data, not an instruction of the template.\<close>

definition realValue :: "cell \<Rightarrow> bool" where
  "realValue v =
     (v \<noteq> Str [] \<and>
      \<not> strIncludes (toUpperCase (cellString v)) ''IMPORTANT'' \<and>
      \<not> strIncludes (toUpperCase (cellString v)) ''NOTE'' \<and>
      \<not> strIncludes (toUpperCase (cellString v)) ''INSTRUCTION'')"

text \<open>
  The body of \<open>headers.forEach\<close> for one header and the cell under it, on the pair of
  the object built so far and the flag \<open>isEmpty\<close>. Headers beyond the end of the row are
  skipped (\<open>index < row.length\<close>), which \<open>zip\<close> does.
\<close>

definition headerStep :: "row \<times> bool \<Rightarrow> string \<times> cell \<Rightarrow> row \<times> bool" where
  "headerStep acc hv =
     (case (acc, hv) of
        ((obj, isEmpty), (header, v)) \<Rightarrow>
          if header \<noteq> [] then (assign header v obj, isEmpty \<and> \<not> realValue v)
          else (obj, isEmpty))"

definition buildRow :: "string list \<Rightarrow> cell list \<Rightarrow> row \<times> bool" where
  "buildRow headers cells = foldl headerStep ([], True) (zip headers cells)"

definition requiredFieldCount :: "row \<Rightarrow> nat" where
  "requiredFieldCount obj =
     length (filter (\<lambda>kv. snd kv \<noteq> Str [] \<and>
                          fst kv \<in> set [''firstName'', ''lastName'', ''email''])
               obj)"

fun dataRows :: "string list \<Rightarrow> cell list list \<Rightarrow> row list" where
  "dataRows headers [] = []"
| "dataRows headers (cells # rest) =
     (case buildRow headers cells of
        (obj, isEmpty) \<Rightarrow>
          if \<not> isEmpty
          then (if requiredFieldCount obj > 0 then obj # dataRows headers rest
                else dataRows headers rest)
          else dataRows headers rest)"

text \<open>
  The second part of the \<open>try\<close> block, from the raw table to the data rows.
\<close>

definition tableOf :: "cell list list \<Rightarrow> string + row list" where
  "tableOf rawData =
     (if length rawData < 2
      then Inl ''The uploaded file must contain a header row and at least one data row.''
      else (let headers = map cleanHeader (hd rawData) in
            if filter (\<lambda>h. h = []) headers \<noteq> []
            then Inl ''Empty column headers found. Please ensure all columns have headers.''
            else Inr (dataRows headers (tl rawData))))"

text \<open>
  The \<open>catch\<close> of \<open>parseFile\<close> replaces the message of every error thrown inside.
\<close>

definition parseCatch :: "string \<Rightarrow> string" where
  "parseCatch message =
     (if strIncludes message ''Unsupported file''
      then ''Unsupported file format. Please upload a valid Excel (.xlsx, .xls) or CSV file.''
      else ''Error parsing file: '' @ message @ ''. Please check the file format.'')"

text \<open>
  \<open>parseFile\<close>: the data rows, or the message of the error it throws.
\<close>

definition parseFile :: "upload \<Rightarrow> string + row list" where
  "parseFile up =
     (case rawDataOf up of
        Inl message \<Rightarrow> Inl (parseCatch message)
      | Inr rawData \<Rightarrow>
          (case tableOf rawData of
             Inl message \<Rightarrow> Inl (parseCatch message)
           | Inr data \<Rightarrow> Inr data))"

section \<open>Generated e-mail addresses\<close>

text \<open>\<open>Number.prototype.toString\<close> on a counter: the decimal digits.\<close>

definition digitChar :: "nat \<Rightarrow> char" where
  "digitChar d = ''0123456789'' ! d"

fun decimal :: "nat \<Rightarrow> string" where
  "decimal n = (if n < 10 then [digitChar n] else decimal (n div 10) @ [digitChar (n mod 10)])"

declare decimal.simps [simp del]

text \<open>\<open>s.toLowerCase().replace(/[^a-z0-9]/g, '')\<close>\<close>

definition cleanName :: "string \<Rightarrow> string" where
  "cleanName s =
     filter (\<lambda>c. c \<in> set ''abcdefghijklmnopqrstuvwxyz0123456789'') (toLowerCase s)"

text \<open>The value a digit character stands for, and the number a digit string reads as.\<close>

definition digitValue :: "char \<Rightarrow> nat" where
  "digitValue c = length (takeWhile (\<lambda>d. d \<noteq> c) ''0123456789'')"

definition decimalValue :: "string \<Rightarrow> nat" where
  "decimalValue s = foldl (\<lambda>a c. 10 * a + digitValue c) 0 s"

lemma digitValue_digitChar: "d < 10 \<Longrightarrow> digitValue (digitChar d) = d"
proof -
  assume "d < 10"
  then have "d \<in> {0, 1, 2, 3, 4, 5, 6, 7, 8, 9}" by auto
  then show ?thesis
    by (auto simp add: digitValue_def digitChar_def)
qed

lemma decimalValue_decimal: "decimalValue (decimal n) = n"
proof (induction n rule: decimal.induct)
  case (1 n)
  show ?case
  proof (cases "n < 10")
    case True
    then show ?thesis
      by (simp add: decimal.simps [of n] decimalValue_def digitValue_digitChar)
  next
    case False
    with 1 have "decimalValue (decimal (n div 10)) = n div 10" by simp
    with False show ?thesis
      by (simp add: decimal.simps [of n] decimalValue_def digitValue_digitChar)
  qed
qed

lemma decimal_inj: "decimal m = decimal n \<Longrightarrow> m = n"
  by (metis decimalValue_decimal)

text \<open>The address tried for a counter value: \<open>`${basePart}${counter}@${domainPart}`\<close>.\<close>

definition numbered :: "string \<Rightarrow> string \<Rightarrow> nat \<Rightarrow> string" where
  "numbered basePart domainPart counter = basePart @ decimal counter @ ''@'' @ domainPart"

lemma numbered_inj: "numbered b d m = numbered b d n \<Longrightarrow> m = n"
proof -
  assume "numbered b d m = numbered b d n"
  then have "decimal m @ ''@'' @ d = decimal n @ ''@'' @ d" by (simp add: numbered_def)
  then have "decimal m = decimal n" by simp
  then show ?thesis by (rule decimal_inj)
qed

lemma finite_taken: "finite {k. numbered b d k \<in> set us}"
proof -
  have "inj (numbered b d)" by (auto simp add: inj_on_def dest: numbered_inj)
  then have "finite (numbered b d -` set us)" by (intro finite_vimageI) simp_all
  then show ?thesis by (simp add: vimage_def)
qed

text \<open>
  The \<open>while\<close> loop that looks for a free address. \<open>accounts\<close> holds the e-mail addresses of
  the existing accounts; \<open>User.findOne({ email })\<close> is membership.
\<close>

function suffixLoop :: "string list \<Rightarrow> string \<Rightarrow> string \<Rightarrow> string \<Rightarrow> nat \<Rightarrow> string" where
  "suffixLoop accounts basePart domainPart newEmail counter =
     (if newEmail \<in> set accounts
      then suffixLoop accounts basePart domainPart (numbered basePart domainPart counter) (counter + 1)
      else newEmail)"
  by pat_completeness auto
termination
proof (relation "measure (\<lambda>(accounts, b, d, newEmail, counter).
          if newEmail \<in> set accounts
          then 1 + card {k. counter \<le> k \<and> numbered b d k \<in> set accounts} else 0)", goal_cases)
  case 1
  show ?case by simp
next
  case (2 accounts b d newEmail counter)
  let ?S = "\<lambda>c. {k. c \<le> k \<and> numbered b d k \<in> set accounts}"
  have fin: "finite (?S c)" for c
    by (rule finite_subset [OF _ finite_taken [of b d accounts]]) auto
  show ?case
  proof (cases "numbered b d counter \<in> set accounts")
    case True
    have "?S counter = insert counter (?S (counter + 1))"
      using True by (auto simp add: le_Suc_eq)
    moreover have "counter \<notin> ?S (counter + 1)" by simp
    ultimately have "card (?S counter) = Suc (card (?S (counter + 1)))"
      using fin [of "counter + 1"] by simp
    with 2 True show ?thesis by simp
  next
    case False
    with 2 show ?thesis by simp
  qed
qed

declare suffixLoop.simps [simp del]

definition generateEmail :: "string \<Rightarrow> string list \<Rightarrow> string \<Rightarrow> string \<Rightarrow> string" where
  "generateEmail rolePrefix accounts firstName lastName =
     (let generatedEmail = rolePrefix @ cleanName firstName @ cleanName lastName @ ''@schoolms.com''
      in if generatedEmail \<in> set accounts
         then (let basePart = takeWhile (\<lambda>c. c \<noteq> CHR ''@'') generatedEmail;
                   domainPart = takeWhile (\<lambda>c. c \<noteq> CHR ''@'')
                                  (drop 1 (dropWhile (\<lambda>c. c \<noteq> CHR ''@'') generatedEmail))
               in suffixLoop accounts basePart domainPart generatedEmail 1)
         else generatedEmail)"

section \<open>The e-mail format check\<close>

text \<open>
  \<open>isValidEmail\<close> tests the address against
  \<open>/^\\w+([\\.-]?\\w+)*@\\w+([\\.-]?\\w+)*(\\.\\w{2,3})+$/\<close>. The expression is anchored at
  both ends, so the test is membership of the whole string in its language, decided here
  by derivatives.
\<close>

datatype charClass = WordChar | DotOrDash | Dot | At

fun inClass :: "charClass \<Rightarrow> char \<Rightarrow> bool" where
  "inClass WordChar c =
     (c \<in> set ''abcdefghijklmnopqrstuvwxyzABCDEFGHIJKLMNOPQRSTUVWXYZ0123456789_'')"
| "inClass DotOrDash c = (c = CHR ''.'' \<or> c = CHR ''-'')"
| "inClass Dot c = (c = CHR ''.'')"
| "inClass At c = (c = CHR ''@'')"

datatype regex = Never | Empty | Cls charClass | Then regex regex | Or regex regex | Many regex

fun nullable :: "regex \<Rightarrow> bool" where
  "nullable Never = False"
| "nullable Empty = True"
| "nullable (Cls k) = False"
| "nullable (Then r s) = (nullable r \<and> nullable s)"
| "nullable (Or r s) = (nullable r \<or> nullable s)"
| "nullable (Many r) = True"

text \<open>Sequence and choice that drop a branch which can match nothing.\<close>

fun thenR :: "regex \<Rightarrow> regex \<Rightarrow> regex" where
  "thenR Never s = Never"
| "thenR Empty s = s"
| "thenR r s = Then r s"

fun orR :: "regex \<Rightarrow> regex \<Rightarrow> regex" where
  "orR Never s = s"
| "orR r Never = r"
| "orR r s = Or r s"

fun deriv :: "char \<Rightarrow> regex \<Rightarrow> regex" where
  "deriv c Never = Never"
| "deriv c Empty = Never"
| "deriv c (Cls k) = (if inClass k c then Empty else Never)"
| "deriv c (Then r s) =
     (if nullable r then orR (thenR (deriv c r) s) (deriv c s) else thenR (deriv c r) s)"
| "deriv c (Or r s) = orR (deriv c r) (deriv c s)"
| "deriv c (Many r) = thenR (deriv c r) (Many r)"

definition matches :: "regex \<Rightarrow> string \<Rightarrow> bool" where
  "matches r s = nullable (foldl (\<lambda>q c. deriv c q) r s)"

definition oneOrMore :: "regex \<Rightarrow> regex" where
  "oneOrMore r = Then r (Many r)"

definition optional :: "regex \<Rightarrow> regex" where
  "optional r = Or r Empty"

text \<open>\<open>\\w+([\\.-]?\\w+)*\<close>\<close>

definition dottedWords :: regex where
  "dottedWords =
     Then (oneOrMore (Cls WordChar))
          (Many (Then (optional (Cls DotOrDash)) (oneOrMore (Cls WordChar))))"

definition emailRegex :: regex where
  "emailRegex =
     Then dottedWords
       (Then (Cls At)
          (Then dottedWords
             (oneOrMore (Then (Cls Dot)
                (Then (Cls WordChar) (Then (Cls WordChar) (optional (Cls WordChar))))))))"

definition isValidEmail :: "string \<Rightarrow> bool" where
  "isValidEmail email = matches emailRegex email"

section \<open>The importers\<close>

text \<open>
  The persistence layer, as far as the importers read it: the e-mail addresses of the
  accounts, the roll numbers of the student profiles and the employee ids of the
  teacher, admin-staff and support-staff profiles.
\<close>

record db =
  users :: "string list"
  studentRolls :: "string list"
  teachers :: "string list"
  adminStaff :: "string list"
  supportStaff :: "string list"

text \<open>
  What an import returns (\<open>totalRecords\<close> is \<open>None\<close> when the JavaScript value is
  \<open>undefined\<close>), the document handed to \<open>UploadHistory.create\<close>, and the answer of the
  request: an error with its status code and message, or the result.
\<close>

record import_result =
  totalRecords :: "nat option"
  successCount :: nat
  errorCount :: nat
  errors :: "(nat \<times> string) list"

record upload_history =
  userType :: string
  uploadStatus :: string
  summary :: import_result

datatype response = Failure nat string | Processed import_result

text \<open>
  Schema validation, casting and the write itself belong to the persistence layer and
  are taken as parameters: \<open>userError\<close>, \<open>profileError\<close> and \<open>historyError\<close> give the
  message of the error that \<open>User.create\<close>, the profile's \<open>create\<close> and
  \<open>UploadHistory.create\<close> throw for a document, or \<open>None\<close> when the document is stored;
  \<open>castError\<close> gives the message of the error thrown when a value that is not a string
  is cast to a \<open>String\<close> path, or \<open>None\<close> when it is cast, to \<open>String(value)\<close>.
\<close>

record persistence =
  userError :: "db \<Rightarrow> row \<Rightarrow> string option"
  profileError :: "db \<Rightarrow> row \<Rightarrow> string option"
  historyError :: "upload_history \<Rightarrow> string option"
  castError :: "cell \<Rightarrow> string option"

text \<open>
  A property of a row. A key the row does not have reads as \<open>undefined\<close> (\<open>None\<close>);
  \<open>!value\<close> holds of \<open>undefined\<close> and of a falsy cell. \<open>valueOf\<close> is the text of a
  property, where the code has made sure that it is there.
\<close>

definition getField :: "row \<Rightarrow> string \<Rightarrow> cell option" where
  "getField r k = map_of r k"

definition falsy :: "cell option \<Rightarrow> bool" where
  "falsy v = (case v of None \<Rightarrow> True | Some c \<Rightarrow> \<not> cellTruthy c)"

definition valueOf :: "row \<Rightarrow> string \<Rightarrow> string" where
  "valueOf r k = (case getField r k of Some v \<Rightarrow> cellString v | None \<Rightarrow> [])"

text \<open>
  Calling a method of strings on a property, as in \<open>student.email.startsWith('std')\<close>:
  the string the method is called on, or the message of the \<open>TypeError\<close> thrown for
  \<open>undefined\<close> and for a value that is not a string. \<open>expr\<close> is the text of the
  property access in the source, which the message quotes.
\<close>

definition stringMethod :: "string \<Rightarrow> string \<Rightarrow> cell option \<Rightarrow> string + string" where
  "stringMethod expr method v =
     (case v of
        None \<Rightarrow>
          Inl (''Cannot read properties of undefined (reading '' @ [CHR 0x27] @ method @
               [CHR 0x27] @ '')'')
      | Some (Str s) \<Rightarrow> Inr s
      | Some (NonString t x segments) \<Rightarrow> Inl (expr @ ''.'' @ method @ '' is not a function''))"

definition methodError :: "string \<Rightarrow> string \<Rightarrow> cell option \<Rightarrow> string option" where
  "methodError expr method v =
     (case stringMethod expr method v of Inl message \<Rightarrow> Some message | Inr s \<Rightarrow> None)"

text \<open>The first error of a sequence of steps, if any.\<close>

fun firstError :: "string option list \<Rightarrow> string option" where
  "firstError [] = None"
| "firstError (None # rest) = firstError rest"
| "firstError (Some message # rest) = Some message"

text \<open>
  \<open>value ? (Array.isArray(value) ? value : value.split(',')...) : []\<close>: no cell value
  is an array, so a truthy value must be a string.
\<close>

definition splitError :: "string \<Rightarrow> cell option \<Rightarrow> string option" where
  "splitError expr v = (if falsy v then None else methodError expr ''split'' v)"

text \<open>
  The \<open>for\<close> loop of an importer over the rows \<open>rows[i], rows[i+1], ...\<close>. \<open>step\<close> is the
  body of the \<open>try\<close>: it returns the persistence state it leaves and the message of the
  error it threw, if any. \<open>sc\<close>, \<open>ec\<close> and \<open>errs\<close> are the variables \<open>successCount\<close>,
  \<open>errorCount\<close> and \<open>errors\<close>.
\<close>

fun importLoop ::
  "(db \<Rightarrow> row \<Rightarrow> db \<times> string option) \<Rightarrow> nat \<Rightarrow> row list \<Rightarrow>
   db \<times> nat \<times> nat \<times> (nat \<times> string) list \<Rightarrow> db \<times> nat \<times> nat \<times> (nat \<times> string) list" where
  "importLoop step i [] acc = acc"
| "importLoop step i (r # rs) (d, sc, ec, errs) =
     (case step d r of
        (d', None) \<Rightarrow> importLoop step (i + 1) rs (d', sc + 1, ec, errs)
      | (d', Some message) \<Rightarrow>
          importLoop step (i + 1) rs (d', sc, ec + 1, errs @ [(i + 2, message)]))"

definition importStatus :: "nat \<Rightarrow> nat \<Rightarrow> string" where
  "importStatus sc ec =
     (if ec = 0 then ''success''
      else if sc > 0 then ''partial'' else ''failed'')"

text \<open>
  Creating the account and then the profile. \<open>prepError\<close> is the error thrown, if any,
  while the profile document is put together, after the account has been created. A
  profile that is not created leaves the account behind.
\<close>

definition createPair ::
  "persistence \<Rightarrow> string option \<Rightarrow> (db \<Rightarrow> db) \<Rightarrow> db \<Rightarrow> row \<Rightarrow> db \<times> string option" where
  "createPair p prepError addProfile d r =
     (case userError p d r of
        Some message \<Rightarrow> (d, Some message)
      | None \<Rightarrow>
          (let d1 = d\<lparr>users := users d @ [valueOf r ''email'']\<rparr> in
           case prepError of
             Some message \<Rightarrow> (d1, Some message)
           | None \<Rightarrow>
               (case profileError p d1 r of
                  Some message \<Rightarrow> (d1, Some message)
                | None \<Rightarrow> (addProfile d1, None))))"

subsection \<open>Students\<close>

definition studentRequiredFields :: "string list" where
  "studentRequiredFields =
     [''firstName'', ''lastName'', ''rollNumber'', ''class'', ''section'', ''gender'',
      ''monthlyFee'', ''fatherName'', ''motherName'', ''contactNumber'']"

text \<open>
  The generated address of a row, from \<open>firstName.toLowerCase()\<close> and
  \<open>lastName.toLowerCase()\<close>; \<open>who\<close> is the name of the row variable in the source.
\<close>

definition generateFor :: "string \<Rightarrow> string \<Rightarrow> string list \<Rightarrow> row \<Rightarrow> string + string" where
  "generateFor who rolePrefix accounts r =
     (case stringMethod (who @ ''.firstName'') ''toLowerCase'' (getField r ''firstName'') of
        Inl message \<Rightarrow> Inl message
      | Inr firstName \<Rightarrow>
          (case stringMethod (who @ ''.lastName'') ''toLowerCase'' (getField r ''lastName'') of
             Inl message \<Rightarrow> Inl message
           | Inr lastName \<Rightarrow> Inr (generateEmail rolePrefix accounts firstName lastName)))"

text \<open>
  The e-mail address of a student row: generated, or the one supplied when it starts
  with \<open>std\<close> and ends with \<open>@schoolms.com\<close>; or the message of the error thrown.
\<close>

definition resolveStudentEmail :: "string list \<Rightarrow> row \<Rightarrow> string + string" where
  "resolveStudentEmail accounts stud =
     (if falsy (getField stud ''email'') then generateFor ''student'' ''std'' accounts stud
      else (case stringMethod ''student.email'' ''startsWith'' (getField stud ''email'') of
              Inl message \<Rightarrow> Inl message
            | Inr email \<Rightarrow>
                if \<not> startsWith email ''std'' \<or> \<not> endsWith email ''@schoolms.com''
                then generateFor ''student'' ''std'' accounts stud
                else if \<not> isValidEmail email then Inl ''Invalid email format''
                else if email \<in> set accounts then Inl ''Email already exists''
                else Inr email))"

text \<open>
  The roll number as the \<open>rollNumber\<close> path of the Student schema (\<open>type: String, trim:
  true\<close>) takes it, in a query and in a document alike: cast to a string and trimmed.
\<close>

definition rollNumberOf :: "persistence \<Rightarrow> cell option \<Rightarrow> string + string" where
  "rollNumberOf p v =
     (case v of
        None \<Rightarrow> Inr []
      | Some (Str s) \<Rightarrow> Inr (trim s)
      | Some (NonString t x segments) \<Rightarrow>
          (case castError p (NonString t x segments) of
             Some message \<Rightarrow> Inl message
           | None \<Rightarrow> Inr (trim x)))"

definition studentRow :: "persistence \<Rightarrow> db \<Rightarrow> row \<Rightarrow> db \<times> string option" where
  "studentRow p d stud =
     (let missingFields = filter (\<lambda>f. falsy (getField stud f)) studentRequiredFields in
      if missingFields \<noteq> []
      then (d, Some (''Missing required fields: '' @ joinWith '', '' missingFields))
      else (case resolveStudentEmail (users d) stud of
              Inl message \<Rightarrow> (d, Some message)
            | Inr email \<Rightarrow>
                (let stud' = assign ''email'' (Str email) stud in
                 case rollNumberOf p (getField stud' ''rollNumber'') of
                   Inl message \<Rightarrow> (d, Some message)
                 | Inr rollNumber \<Rightarrow>
                     if rollNumber \<in> set (studentRolls d)
                     then (d, Some ''Roll number already exists'')
                     else createPair p
                            (methodError ''student.gender'' ''toLowerCase''
                               (getField stud' ''gender''))
                            (\<lambda>d1. d1\<lparr>studentRolls := studentRolls d1 @ [rollNumber]\<rparr>)
                            d stud')))"

text \<open>
  The end of an import: the history document is created and the result returned. When
  \<open>UploadHistory.create\<close> throws, the outer \<open>catch\<close> answers; nothing the rows created
  is undone.
\<close>

definition finishImport ::
  "persistence \<Rightarrow> (string \<Rightarrow> response) \<Rightarrow> string \<Rightarrow> nat option \<Rightarrow>
   db \<times> nat \<times> nat \<times> (nat \<times> string) list \<Rightarrow> response \<times> upload_history option \<times> db" where
  "finishImport p onError kind nRecords acc =
     (case acc of
        (d', sc, ec, errs) \<Rightarrow>
          (let res = \<lparr>totalRecords = nRecords, successCount = sc, errorCount = ec, errors = errs\<rparr>;
               history = \<lparr>userType = kind, uploadStatus = importStatus sc ec, summary = res\<rparr>
           in case historyError p history of
                None \<Rightarrow> (Processed res, Some history, d')
              | Some message \<Rightarrow> (onError message, None, d')))"

text \<open>The outer \<open>catch\<close> of \<open>uploadStudents\<close> picks its answer from the message.\<close>

definition studentsCatch :: "string \<Rightarrow> response" where
  "studentsCatch message =
     (if strIncludes message ''duplicate key'' \<or> strIncludes message ''already exists''
      then Failure 400 ''Duplicate entries found. Email or roll number may already exist.''
      else if strIncludes message ''validation failed''
      then Failure 400 ''Validation failed. Please check your data format.''
      else if strIncludes message ''required''
      then Failure 400 ''Missing required fields in the uploaded file.''
      else Failure 500 ''Error processing file'')"

text \<open>
  The request carries a file (\<open>req.file\<close>) or none. The message of a parse error is
  never empty, so \<open>parseError.message || ...\<close> is the message.
\<close>

definition uploadStudents ::
  "persistence \<Rightarrow> upload option \<Rightarrow> db \<Rightarrow> response \<times> upload_history option \<times> db" where
  "uploadStudents p file d =
     (case file of
        None \<Rightarrow> (Failure 400 ''Please upload a file'', None, d)
      | Some up \<Rightarrow>
          (case parseFile up of
             Inl message \<Rightarrow> (Failure 400 message, None, d)
           | Inr students \<Rightarrow>
               if length students = 0
               then (Failure 400 ''The uploaded file contains no data'', None, d)
               else finishImport p studentsCatch ''student'' (Some (length students))
                      (importLoop (studentRow p) 0 students (d, 0, 0, []))))"

subsection \<open>Teachers\<close>

definition teacherRequiredFields :: "string list" where
  "teacherRequiredFields =
     [''firstName'', ''lastName'', ''phoneNumber'', ''qualification'', ''experience'',
      ''subjects'', ''gender'', ''salary'']"

text \<open>\<open>s.padStart(4, '0')\<close>\<close>

definition padStart4 :: "string \<Rightarrow> string" where
  "padStart4 s = replicate (4 - length s) (CHR ''0'') @ s"

text \<open>\<open>s.substr(-2)\<close>: the last two characters, or all of a shorter string.\<close>

definition lastTwo :: "string \<Rightarrow> string" where
  "lastTwo s = drop (length s - 2) s"

definition teacherRow :: "nat \<Rightarrow> persistence \<Rightarrow> db \<Rightarrow> row \<Rightarrow> db \<times> string option" where
  "teacherRow currentYear p d teacher =
     (if filter (\<lambda>f. falsy (getField teacher f)) teacherRequiredFields \<noteq> []
      then (d, Some ''Missing required fields'')
      else (case generateFor ''teacher'' ''tch'' (users d) teacher of
              Inl message \<Rightarrow> (d, Some message)
            | Inr email \<Rightarrow>
                (let teacher1 = assign ''email'' (Str email) teacher;
                     teacherCount = length (teachers d);
                     employeeId = ''TCH'' @ lastTwo (decimal currentYear) @
                                  padStart4 (decimal (teacherCount + 1));
                     teacher2 = assign ''employeeId'' (Str employeeId) teacher1
                 in createPair p
                      (firstError
                         [methodError ''teacher.subjects'' ''split'' (getField teacher2 ''subjects''),
                          splitError ''teacher.classes'' (getField teacher2 ''classes''),
                          methodError ''teacher.gender'' ''toLowerCase''
                            (getField teacher2 ''gender'')])
                      (\<lambda>d1. d1\<lparr>teachers := teachers d1 @ [employeeId]\<rparr>) d teacher2)))"

definition uploadTeachers ::
  "nat \<Rightarrow> persistence \<Rightarrow> upload option \<Rightarrow> db \<Rightarrow> response \<times> upload_history option \<times> db" where
  "uploadTeachers currentYear p file d =
     (case file of
        None \<Rightarrow> (Failure 400 ''Please upload a file'', None, d)
      | Some up \<Rightarrow>
          (case parseFile up of
             Inl message \<Rightarrow> (Failure 500 ''Error processing file'', None, d)
           | Inr teacherRows \<Rightarrow>
               if length teacherRows = 0
               then (Failure 400 ''The uploaded file contains no data'', None, d)
               else finishImport p (\<lambda>message. Failure 500 ''Error processing file'') ''teacher''
                      (Some (length teacherRows))
                      (importLoop (teacherRow currentYear p) 0 teacherRows (d, 0, 0, []))))"

subsection \<open>Admin staff and support staff\<close>

text \<open>
  \<open>uploadAdminStaff\<close> and \<open>uploadSupportStaff\<close> call the asynchronous \<open>parseFile\<close>
  without \<open>await\<close>: their list variable holds the promise, not the rows. A promise has
  no \<open>length\<close> (it reads as \<open>undefined\<close>, which is \<open>None\<close> here), \<open>undefined === 0\<close> is
  false, and \<open>i < undefined\<close> is false for every \<open>i\<close>, so the loop visits nothing.
\<close>

datatype 'a parsed = Rows "'a list" | Promise "string + 'a list"

definition lengthOf :: "'a parsed \<Rightarrow> nat option" where
  "lengthOf v = (case v of Rows xs \<Rightarrow> Some (length xs) | Promise q \<Rightarrow> None)"

definition loopItems :: "'a parsed \<Rightarrow> 'a list" where
  "loopItems v = (case v of Rows xs \<Rightarrow> xs | Promise q \<Rightarrow> [])"

text \<open>
  The checks of a staff row. \<open>isValidEmail\<close> tests the text of the address, and the
  two queries look for that text and for the text of the employee id.
\<close>

definition staffChecks :: "string list \<Rightarrow> string list \<Rightarrow> string list \<Rightarrow> row \<Rightarrow> string option" where
  "staffChecks requiredFields accounts employeeIds staff =
     (if filter (\<lambda>f. falsy (getField staff f)) requiredFields \<noteq> []
      then Some ''Missing required fields''
      else if \<not> isValidEmail (valueOf staff ''email'') then Some ''Invalid email format''
      else if valueOf staff ''email'' \<in> set accounts then Some ''Email already exists''
      else if valueOf staff ''employeeId'' \<in> set employeeIds
      then Some ''Employee ID already exists''
      else None)"

definition adminRequiredFields :: "string list" where
  "adminRequiredFields =
     [''firstName'', ''lastName'', ''email'', ''employeeId'', ''phoneNumber'',
      ''qualification'', ''experience'', ''position'', ''department'', ''gender'', ''salary'']"

definition supportRequiredFields :: "string list" where
  "supportRequiredFields =
     [''firstName'', ''lastName'', ''email'', ''employeeId'', ''phoneNumber'', ''position'',
      ''experience'', ''gender'', ''salary'']"

definition adminStaffRow :: "persistence \<Rightarrow> db \<Rightarrow> row \<Rightarrow> db \<times> string option" where
  "adminStaffRow p d staff =
     (case staffChecks adminRequiredFields (users d) (adminStaff d) staff of
        Some message \<Rightarrow> (d, Some message)
      | None \<Rightarrow>
          createPair p
            (firstError
               [splitError ''staff.responsibilities'' (getField staff ''responsibilities''),
                methodError ''staff.gender'' ''toLowerCase'' (getField staff ''gender'')])
            (\<lambda>d1. d1\<lparr>adminStaff := adminStaff d1 @ [valueOf staff ''employeeId'']\<rparr>)
            d staff)"

definition supportStaffRow :: "persistence \<Rightarrow> db \<Rightarrow> row \<Rightarrow> db \<times> string option" where
  "supportStaffRow p d staff =
     (case staffChecks supportRequiredFields (users d) (supportStaff d) staff of
        Some message \<Rightarrow> (d, Some message)
      | None \<Rightarrow>
          createPair p
            (firstError
               [splitError ''staff.daysOfWeek'' (getField staff ''daysOfWeek''),
                methodError ''staff.gender'' ''toLowerCase'' (getField staff ''gender''),
                methodError ''staff.position'' ''toLowerCase'' (getField staff ''position'')])
            (\<lambda>d1. d1\<lparr>supportStaff := supportStaff d1 @ [valueOf staff ''employeeId'']\<rparr>)
            d staff)"

definition uploadAdminStaff ::
  "persistence \<Rightarrow> upload option \<Rightarrow> db \<Rightarrow> response \<times> upload_history option \<times> db" where
  "uploadAdminStaff p file d =
     (case file of
        None \<Rightarrow> (Failure 400 ''Please upload a file'', None, d)
      | Some up \<Rightarrow>
          (let adminStaffList = Promise (parseFile up);
               nRecords = lengthOf adminStaffList
           in if nRecords = Some 0
              then (Failure 400 ''The uploaded file contains no data'', None, d)
              else finishImport p (\<lambda>message. Failure 500 ''Error processing file'')
                     ''admin-staff'' nRecords
                     (importLoop (adminStaffRow p) 0 (loopItems adminStaffList) (d, 0, 0, []))))"

definition uploadSupportStaff ::
  "persistence \<Rightarrow> upload option \<Rightarrow> db \<Rightarrow> response \<times> upload_history option \<times> db" where
  "uploadSupportStaff p file d =
     (case file of
        None \<Rightarrow> (Failure 400 ''Please upload a file'', None, d)
      | Some up \<Rightarrow>
          (let supportStaffList = Promise (parseFile up);
               nRecords = lengthOf supportStaffList
           in if nRecords = Some 0
              then (Failure 400 ''The uploaded file contains no data'', None, d)
              else finishImport p (\<lambda>message. Failure 500 ''Error processing file'')
                     ''support-staff'' nRecords
                     (importLoop (supportStaffRow p) 0 (loopItems supportStaffList)
                        (d, 0, 0, []))))"

section \<open>Definitions used in the statements\<close>

text \<open>
  The numbers of the examples: integers, with exact operations. Whole amounts below
  \<open>2^53\<close> are doubles on which \<open>+\<close>, \<open>-\<close> and the comparisons of JavaScript agree with
  these.
\<close>

definition intNumbers :: "int number_ops" where
  "intNumbers =
     \<lparr>numZero = 0, numAdd = (\<lambda>a b. a + b), numSub = (\<lambda>a b. a - b),
      numIsZero = (\<lambda>a. a = 0), numLess = (\<lambda>a b. a < b), numGeq = (\<lambda>a b. a \<ge> b),
      numTruthy = (\<lambda>a. a \<noteq> 0)\<rparr>"

text \<open>
  Used to state the correctness of the line parser: a field of a CSV line is plain or
  quoted, and is written out with its quotes.
\<close>

definition csvField :: "bool \<times> string \<Rightarrow> string" where
  "csvField f = (if fst f then DQUOTE # snd f @ [DQUOTE] else snd f)"

definition csvFieldOk :: "bool \<times> string \<Rightarrow> bool" where
  "csvFieldOk f =
     (DQUOTE \<notin> set (snd f) \<and>
      (if fst f then (snd f = [] \<or> last (snd f) \<noteq> BACKSLASH) else COMMA \<notin> set (snd f)))"


fun rowOutcomes :: "(db \<Rightarrow> row \<Rightarrow> db \<times> string option) \<Rightarrow> db \<Rightarrow> row list \<Rightarrow> string option list" where
  "rowOutcomes step d [] = []"
| "rowOutcomes step d (r # rs) = (case step d r of (d', m) \<Rightarrow> m # rowOutcomes step d' rs)"

definition reported :: "nat \<Rightarrow> string option list \<Rightarrow> (nat \<times> string) list" where
  "reported i outcomes =
     concat (map (\<lambda>jm. case snd jm of None \<Rightarrow> [] | Some m \<Rightarrow> [(fst jm + 2, m)])
               (enumerate i outcomes))"

section \<open>Verification of the fee engine\<close>

subsection \<open>The save hook\<close>

lemmas hook_defs = preSave_def overdueCheck_def paidAmountChanged_def explicitPaid_def paymentDateOrNow_def

lemma intNumbers_ops:
  "numZero intNumbers = 0"
  "numAdd intNumbers a b = a + b"
  "numSub intNumbers a b = a - b"
  "numIsZero intNumbers a = (a = 0)"
  "numLess intNumbers a b = (a < b)"
  "numGeq intNumbers a b = (b \<le> a)"
  "numTruthy intNumbers a = (a \<noteq> 0)"
  by (simp_all add: intNumbers_def)

lemma preSave_frame:
  "fee_id (preSave ops ms mp now f) = fee_id f"
  "student (preSave ops ms mp now f) = student f"
  "feeType (preSave ops ms mp now f) = feeType f"
  "amount (preSave ops ms mp now f) = amount f"
  "dueDate (preSave ops ms mp now f) = dueDate f"
  by (simp_all add: hook_defs Let_def)




text \<open>
  C7. The hook means an explicit \<open>paid\<close> to win over the overdue check (its comments
  say so, and the check tests \<open>status !== 'paid'\<close>), and it does not: the status is
  explicitly set to \<open>paid\<close> on a fee of amount 0 whose due date has passed; the first
  block sets the paid amount to 0; the paid amount counts as modified, so the second
  block reads \<open>paidAmount === 0\<close> as \<open>unpaid\<close>; and the overdue check makes the record
  \<open>overdue\<close>. The same save with the paid amount not counted as modified keeps \<open>paid\<close>.
  In general an explicit \<open>paid\<close> with the paid amount counted as modified is lost
  when the amount is 0, and the status after the hook is then \<open>overdue\<close> or
  \<open>unpaid\<close>, by the due date; it is kept when the amount is not 0 (and not below
  itself, which no number is), and whenever the paid amount does not count as modified.
  The rest of the claim holds: the overdue check leaves alone a status that is \<open>paid\<close>
  when the check runs, and a record that is \<open>overdue\<close> stays \<open>overdue\<close> through a
  save in which the paid amount does not count as modified, whatever else the save
  changes.
\<close>

theorem explicit_paid_loses:
  "status (preSave intNumbers True True
      \<lparr>fullYear = 2024, monthIdx = 5, dayOfMonth = 10, msOfDay = 0\<rparr>
      \<lparr>fee_id = 1, student = 7, feeType = ''other'', amount = 0,
       dueDate = \<lparr>fullYear = 2024, monthIdx = 2, dayOfMonth = 31, msOfDay = 0\<rparr>,
       paymentDate = None, status = Paid, paidAmount = 0, remainingAmount = 0,
       arrears = 0, recordedBy = 3\<rparr>) = Overdue \<and>
   status (preSave intNumbers True False
      \<lparr>fullYear = 2024, monthIdx = 5, dayOfMonth = 10, msOfDay = 0\<rparr>
      \<lparr>fee_id = 1, student = 7, feeType = ''other'', amount = 0,
       dueDate = \<lparr>fullYear = 2024, monthIdx = 2, dayOfMonth = 31, msOfDay = 0\<rparr>,
       paymentDate = None, status = Paid, paidAmount = 0, remainingAmount = 0,
       arrears = 0, recordedBy = 3\<rparr>) = Paid \<and>
   (status f = Paid \<and> numIsZero ops (amount f) \<longrightarrow>
      status (preSave ops True True now f) =
        (if date_lt (dueDate f) now then Overdue else Unpaid)) \<and>
   (status f = Paid \<and> \<not> numIsZero ops (amount f) \<and> \<not> numLess ops (amount f) (amount f) \<longrightarrow>
      status (preSave ops True True now f) = Paid) \<and>
   (status f = Paid \<longrightarrow> status (preSave ops True False now f) = Paid) \<and>
   (status (paidAmountChanged ops modPaid now (explicitPaid ops modStatus now f)) = Paid \<longrightarrow>
      status (preSave ops modStatus modPaid now f) = Paid) \<and>
   (status f = Overdue \<longrightarrow> status (preSave ops modStatus False now f) = Overdue)"
proof -
  let ?now = "\<lparr>fullYear = 2024, monthIdx = 5, dayOfMonth = 10, msOfDay = 0\<rparr>"
  let ?f = "\<lparr>fee_id = 1, student = 7, feeType = ''other'', amount = 0::int,
       dueDate = \<lparr>fullYear = 2024, monthIdx = 2, dayOfMonth = 31, msOfDay = 0\<rparr>,
       paymentDate = None, status = Paid, paidAmount = 0, remainingAmount = 0,
       arrears = 0, recordedBy = 3\<rparr>"
  have lost: "status (preSave intNumbers True True ?now ?f) = Overdue"
    by (simp add: hook_defs intNumbers_def Let_def date_lt_def)
  have kept: "status (preSave intNumbers True False ?now ?f) = Paid"
    by (simp add: hook_defs intNumbers_def Let_def date_lt_def)
  have zero: "status (preSave ops True True now f) =
        (if date_lt (dueDate f) now then Overdue else Unpaid)"
    if "status f = Paid \<and> numIsZero ops (amount f)"
    using that by (simp add: hook_defs Let_def)
  have nonzero: "status (preSave ops True True now f) = Paid"
    if "status f = Paid \<and> \<not> numIsZero ops (amount f) \<and> \<not> numLess ops (amount f) (amount f)"
    using that by (simp add: hook_defs Let_def)
  have unmod: "status (preSave ops True False now f) = Paid" if "status f = Paid"
    using that by (simp add: hook_defs Let_def)
  have check: "status (preSave ops modStatus modPaid now f) = Paid"
    if "status (paidAmountChanged ops modPaid now (explicitPaid ops modStatus now f)) = Paid"
    using that by (simp add: preSave_def overdueCheck_def)
  have overdue: "status (preSave ops modStatus False now f) = Overdue" if "status f = Overdue"
    using that by (simp add: hook_defs Let_def)
  from lost kept zero nonzero unmod check overdue show ?thesis by blast
qed

theorem explicit_paid_loses_witness:
  "status (preSave intNumbers True True
      \<lparr>fullYear = 2024, monthIdx = 2, dayOfMonth = 10, msOfDay = 0\<rparr>
      \<lparr>fee_id = 1, student = 7, feeType = ''other'', amount = 0,
       dueDate = \<lparr>fullYear = 2024, monthIdx = 2, dayOfMonth = 31, msOfDay = 0\<rparr>,
       paymentDate = None, status = Paid, paidAmount = 0, remainingAmount = 0,
       arrears = 0, recordedBy = 3\<rparr>) = Unpaid \<and>
   status (preSave intNumbers True True
      \<lparr>fullYear = 2024, monthIdx = 5, dayOfMonth = 10, msOfDay = 0\<rparr>
      \<lparr>fee_id = 1, student = 7, feeType = ''tuition'', amount = 1000,
       dueDate = \<lparr>fullYear = 2024, monthIdx = 2, dayOfMonth = 31, msOfDay = 0\<rparr>,
       paymentDate = None, status = Paid, paidAmount = 400, remainingAmount = 600,
       arrears = 0, recordedBy = 3\<rparr>) = Paid"
proof -
  let ?f0 = "\<lparr>fee_id = 1, student = 7, feeType = ''other'', amount = 0::int,
       dueDate = \<lparr>fullYear = 2024, monthIdx = 2, dayOfMonth = 31, msOfDay = 0\<rparr>,
       paymentDate = None, status = Paid, paidAmount = 0, remainingAmount = 0,
       arrears = 0, recordedBy = 3\<rparr>"
  let ?f1 = "\<lparr>fee_id = 1, student = 7, feeType = ''tuition'', amount = 1000::int,
       dueDate = \<lparr>fullYear = 2024, monthIdx = 2, dayOfMonth = 31, msOfDay = 0\<rparr>,
       paymentDate = None, status = Paid, paidAmount = 400, remainingAmount = 600,
       arrears = 0, recordedBy = 3\<rparr>"
  let ?early = "\<lparr>fullYear = 2024, monthIdx = 2, dayOfMonth = 10, msOfDay = 0\<rparr>"
  let ?late = "\<lparr>fullYear = 2024, monthIdx = 5, dayOfMonth = 10, msOfDay = 0\<rparr>"
  have z: "status ?f0 = Paid \<and> numIsZero intNumbers (amount ?f0)"
    by (simp add: intNumbers_ops)
  have n: "status ?f1 = Paid \<and> \<not> numIsZero intNumbers (amount ?f1) \<and>
      \<not> numLess intNumbers (amount ?f1) (amount ?f1)"
    by (simp add: intNumbers_ops)
  note lost = explicit_paid_loses [THEN conjunct2, THEN conjunct2, THEN conjunct1, rule_format]
  note kept = explicit_paid_loses [THEN conjunct2, THEN conjunct2, THEN conjunct2,
      THEN conjunct1, rule_format]
  from lost [OF z, of ?early]
  have a: "status (preSave intNumbers True True ?early ?f0) = Unpaid"
    by (simp add: date_lt_def)
  from kept [OF n, of ?late]
  have b: "status (preSave intNumbers True True ?late ?f1) = Paid" .
  from a b show ?thesis by (rule conjI)
qed

subsection \<open>Arrears\<close>

text \<open>The running total of the \<open>forEach\<close> is a left fold of JavaScript's \<open>+\<close> from 0.\<close>

lemma fold_addArrears:
  "fold (addArrears ops) fs t =
     foldl (numAdd ops) t (map (\<lambda>f. if status f = Partial then remainingAmount f else amount f) fs)"
  by (induction fs arbitrary: t) (simp_all add: addArrears_def)

text \<open>
  When every addition the loop performs is exact under a reading \<open>val\<close> of the numbers,
  the result reads as the mathematical sum.
\<close>

lemma exact_total:
  fixes val :: "'n \<Rightarrow> 'v::monoid_add"
  assumes z: "val z = 0"
    and ex: "\<forall>k<length vs. val (add (foldl add z (take k vs)) (vs ! k)) =
                             val (foldl add z (take k vs)) + val (vs ! k)"
  shows "val (foldl add z vs) = sum_list (map val vs)"
  using ex
proof (induction vs rule: rev_induct)
  case Nil
  show ?case using z by simp
next
  case (snoc x xs)
  have "\<forall>k<length xs. val (add (foldl add z (take k xs)) (xs ! k)) =
                         val (foldl add z (take k xs)) + val (xs ! k)"
  proof (intro allI impI)
    fix k assume k: "k < length xs"
    with snoc.prems have "val (add (foldl add z (take k (xs @ [x]))) ((xs @ [x]) ! k)) =
                val (foldl add z (take k (xs @ [x]))) + val ((xs @ [x]) ! k)" by simp
    with k show "val (add (foldl add z (take k xs)) (xs ! k)) =
                 val (foldl add z (take k xs)) + val (xs ! k)" by (simp add: nth_append)
  qed
  then have ih: "val (foldl add z xs) = sum_list (map val xs)" by (rule snoc.IH)
  from snoc.prems [rule_format, of "length xs"]
  have "val (add (foldl add z xs) x) = val (foldl add z xs) + val x" by simp
  with ih show ?case by simp
qed

text \<open>
  C3. For a student id, \<open>calculateStudentArrears\<close> returns the sum, over the student's
  fee records due strictly before the first day of the current month and with status
  \<open>unpaid\<close>, \<open>partial\<close> or \<open>overdue\<close>, of the remaining amount for \<open>partial\<close> records
  and of the full amount for the others: the sum the code computes, adding the records
  in the order of the query to a total that starts at 0, with the \<open>+\<close> of the numbers;
  it is the mathematical sum whenever each of these additions is exact. It returns 0 when
  no record qualifies; in May 2025 it returns 0 whatever the history; and it returns 0
  for a missing student id and when the query fails.
\<close>

theorem calculateStudentArrears_sum:
  fixes val :: "'n \<Rightarrow> 'v::monoid_add"
  shows
  "calculateStudentArrears ops (Some fees) now (Some sid) =
     (if monthIdx now = 4 \<and> fullYear now = 2025 then numZero ops
      else foldl (numAdd ops) (numZero ops)
             (map (\<lambda>f. if status f = Partial then remainingAmount f else amount f)
                (filter (\<lambda>f. student f = sid \<and> date_lt (dueDate f) (startOfMonth now) \<and>
                              (status f = Unpaid \<or> status f = Partial \<or> status f = Overdue))
                   fees))) \<and>
   (val (numZero ops) = 0 \<and>
    (\<forall>k < length (filter (\<lambda>f. student f = sid \<and> date_lt (dueDate f) (startOfMonth now) \<and>
                              (status f = Unpaid \<or> status f = Partial \<or> status f = Overdue))
                      fees).
        val (numAdd ops
               (foldl (numAdd ops) (numZero ops)
                  (take k (map (\<lambda>f. if status f = Partial then remainingAmount f else amount f)
                     (filter (\<lambda>f. student f = sid \<and> date_lt (dueDate f) (startOfMonth now) \<and>
                              (status f = Unpaid \<or> status f = Partial \<or> status f = Overdue))
                        fees))))
               (map (\<lambda>f. if status f = Partial then remainingAmount f else amount f)
                  (filter (\<lambda>f. student f = sid \<and> date_lt (dueDate f) (startOfMonth now) \<and>
                              (status f = Unpaid \<or> status f = Partial \<or> status f = Overdue))
                     fees) ! k)) =
        val (foldl (numAdd ops) (numZero ops)
               (take k (map (\<lambda>f. if status f = Partial then remainingAmount f else amount f)
                  (filter (\<lambda>f. student f = sid \<and> date_lt (dueDate f) (startOfMonth now) \<and>
                              (status f = Unpaid \<or> status f = Partial \<or> status f = Overdue))
                     fees)))) +
        val (map (\<lambda>f. if status f = Partial then remainingAmount f else amount f)
               (filter (\<lambda>f. student f = sid \<and> date_lt (dueDate f) (startOfMonth now) \<and>
                              (status f = Unpaid \<or> status f = Partial \<or> status f = Overdue))
                  fees) ! k)) \<longrightarrow>
    val (calculateStudentArrears ops (Some fees) now (Some sid)) =
      (if monthIdx now = 4 \<and> fullYear now = 2025 then 0
       else (\<Sum>f\<leftarrow>filter (\<lambda>f. student f = sid \<and> date_lt (dueDate f) (startOfMonth now) \<and>
                              (status f = Unpaid \<or> status f = Partial \<or> status f = Overdue)) fees.
               val (if status f = Partial then remainingAmount f else amount f)))) \<and>
   (filter (\<lambda>f. student f = sid \<and> date_lt (dueDate f) (startOfMonth now) \<and>
                (status f = Unpaid \<or> status f = Partial \<or> status f = Overdue)) fees = [] \<longrightarrow>
      calculateStudentArrears ops (Some fees) now (Some sid) = numZero ops) \<and>
   (monthIdx now = 4 \<and> fullYear now = 2025 \<longrightarrow>
      calculateStudentArrears ops store now studentId = numZero ops) \<and>
   calculateStudentArrears ops store now None = numZero ops \<and>
   calculateStudentArrears ops None now studentId = numZero ops"
proof -
  let ?q = "filter (\<lambda>f. student f = sid \<and> date_lt (dueDate f) (startOfMonth now) \<and>
                (status f = Unpaid \<or> status f = Partial \<or> status f = Overdue)) fees"
  let ?vs = "map (\<lambda>f. if status f = Partial then remainingAmount f else amount f) ?q"
  have same: "previousFees fees sid (startOfMonth now) = ?q"
    unfolding previousFees_def by (rule filter_cong) auto
  have main: "calculateStudentArrears ops (Some fees) now (Some sid) =
     (if monthIdx now = 4 \<and> fullYear now = 2025 then numZero ops
      else foldl (numAdd ops) (numZero ops) ?vs)"
    by (simp add: calculateStudentArrears_def fold_addArrears same)
  have exact: "val (calculateStudentArrears ops (Some fees) now (Some sid)) =
      (if monthIdx now = 4 \<and> fullYear now = 2025 then 0
       else (\<Sum>f\<leftarrow>?q. val (if status f = Partial then remainingAmount f else amount f)))"
    if z: "val (numZero ops) = 0"
      and ex: "\<forall>k < length ?q.
        val (numAdd ops (foldl (numAdd ops) (numZero ops) (take k ?vs)) (?vs ! k)) =
        val (foldl (numAdd ops) (numZero ops) (take k ?vs)) + val (?vs ! k)"
  proof -
    from ex have ex': "\<forall>k < length ?vs.
        val (numAdd ops (foldl (numAdd ops) (numZero ops) (take k ?vs)) (?vs ! k)) =
        val (foldl (numAdd ops) (numZero ops) (take k ?vs)) + val (?vs ! k)"
      by (simp only: length_map)
    have "val (foldl (numAdd ops) (numZero ops) ?vs) = sum_list (map val ?vs)"
      using z ex' by (rule exact_total)
    also have "\<dots> = (\<Sum>f\<leftarrow>?q. val (if status f = Partial then remainingAmount f else amount f))"
      by (simp add: comp_def)
    finally show ?thesis using z by (simp add: main)
  qed
  have none: "calculateStudentArrears ops (Some fees) now (Some sid) = numZero ops" if "?q = []"
    using that by (simp add: main)
  have may: "calculateStudentArrears ops store now studentId = numZero ops"
    if "monthIdx now = 4 \<and> fullYear now = 2025"
    using that by (simp add: calculateStudentArrears_def split: option.splits)
  have noid: "calculateStudentArrears ops store now None = numZero ops"
    by (simp add: calculateStudentArrears_def)
  have fails: "calculateStudentArrears ops None now studentId = numZero ops"
    by (simp add: calculateStudentArrears_def split: option.splits)
  show ?thesis
  proof (intro conjI impI)
    show "calculateStudentArrears ops (Some fees) now (Some sid) =
     (if monthIdx now = 4 \<and> fullYear now = 2025 then numZero ops
      else foldl (numAdd ops) (numZero ops) ?vs)" by (rule main)
    show "val (calculateStudentArrears ops (Some fees) now (Some sid)) =
      (if monthIdx now = 4 \<and> fullYear now = 2025 then 0
       else (\<Sum>f\<leftarrow>?q. val (if status f = Partial then remainingAmount f else amount f)))"
      if "val (numZero ops) = 0 \<and> (\<forall>k < length ?q.
        val (numAdd ops (foldl (numAdd ops) (numZero ops) (take k ?vs)) (?vs ! k)) =
        val (foldl (numAdd ops) (numZero ops) (take k ?vs)) + val (?vs ! k))"
      using that exact by blast
    show "calculateStudentArrears ops (Some fees) now (Some sid) = numZero ops" if "?q = []"
      using that by (rule none)
    show "calculateStudentArrears ops store now studentId = numZero ops"
      if "monthIdx now = 4 \<and> fullYear now = 2025" using that by (rule may)
    show "calculateStudentArrears ops store now None = numZero ops" by (rule noid)
    show "calculateStudentArrears ops None now studentId = numZero ops" by (rule fails)
  qed
qed

theorem calculateStudentArrears_sum_witness:
  "calculateStudentArrears intNumbers
     (Some [\<lparr>fee_id = 1, student = 7, feeType = ''tuition'', amount = 500,
       dueDate = \<lparr>fullYear = 2024, monthIdx = 2, dayOfMonth = 31, msOfDay = 0\<rparr>,
       paymentDate = None, status = Unpaid, paidAmount = 0, remainingAmount = 500,
       arrears = 0, recordedBy = 3\<rparr>,
      \<lparr>fee_id = 2, student = 7, feeType = ''tuition'', amount = 600,
       dueDate = \<lparr>fullYear = 2024, monthIdx = 3, dayOfMonth = 30, msOfDay = 0\<rparr>,
       paymentDate = None, status = Partial, paidAmount = 400, remainingAmount = 200,
       arrears = 0, recordedBy = 3\<rparr>,
      \<lparr>fee_id = 3, student = 7, feeType = ''tuition'', amount = 900,
       dueDate = \<lparr>fullYear = 2024, monthIdx = 4, dayOfMonth = 1, msOfDay = 0\<rparr>,
       paymentDate = None, status = Overdue, paidAmount = 0, remainingAmount = 900,
       arrears = 0, recordedBy = 3\<rparr>])
     \<lparr>fullYear = 2024, monthIdx = 4, dayOfMonth = 20, msOfDay = 0\<rparr> (Some 7) = 700"
proof -
  let ?fees = "[\<lparr>fee_id = 1, student = 7, feeType = ''tuition'', amount = 500::int,
       dueDate = \<lparr>fullYear = 2024, monthIdx = 2, dayOfMonth = 31, msOfDay = 0\<rparr>,
       paymentDate = None, status = Unpaid, paidAmount = 0, remainingAmount = 500,
       arrears = 0, recordedBy = 3\<rparr>,
      \<lparr>fee_id = 2, student = 7, feeType = ''tuition'', amount = 600,
       dueDate = \<lparr>fullYear = 2024, monthIdx = 3, dayOfMonth = 30, msOfDay = 0\<rparr>,
       paymentDate = None, status = Partial, paidAmount = 400, remainingAmount = 200,
       arrears = 0, recordedBy = 3\<rparr>,
      \<lparr>fee_id = 3, student = 7, feeType = ''tuition'', amount = 900,
       dueDate = \<lparr>fullYear = 2024, monthIdx = 4, dayOfMonth = 1, msOfDay = 0\<rparr>,
       paymentDate = None, status = Overdue, paidAmount = 0, remainingAmount = 900,
       arrears = 0, recordedBy = 3\<rparr>]"
  let ?now = "\<lparr>fullYear = 2024, monthIdx = 4, dayOfMonth = 20, msOfDay = 0\<rparr>"
  from calculateStudentArrears_sum [where val = "\<lambda>x::int. x" and ops = intNumbers
      and fees = ?fees and now = ?now and sid = 7 and store = None and studentId = None,
      THEN conjunct2, THEN conjunct1]
  show ?thesis by (simp add: intNumbers_ops date_lt_def startOfMonth_def)
qed

subsection \<open>Initial fee record\<close>

lemma daysInMonth_pos: "1 \<le> daysInMonth y m"
  by (simp add: daysInMonth_def)

lemma month_start_le_last: "date_le (startOfMonth d) (lastDayOfMonth d)"
  using daysInMonth_pos [of "fullYear d" "monthIdx d"]
  by (auto simp add: date_le_def date_lt_def startOfMonth_def lastDayOfMonth_def)

lemma date_le_refl: "date_le d d"
  by (simp add: date_le_def)

lemma same_month_bounds:
  "fullYear b = fullYear a \<Longrightarrow> monthIdx b = monthIdx a \<Longrightarrow>
     startOfMonth b = startOfMonth a \<and> lastDayOfMonth b = lastDayOfMonth a"
  by (simp add: startOfMonth_def lastDayOfMonth_def)

lemma same_month_dueThisMonth:
  "fullYear b = fullYear a \<Longrightarrow> monthIdx b = monthIdx a \<Longrightarrow>
     dueThisMonth sid b = dueThisMonth sid a"
  by (rule ext) (simp add: dueThisMonth_def startOfMonth_def lastDayOfMonth_def)

lemma setFeeData_due:
  "dueThisMonth sid now (setFeeData sid amt (lastDayOfMonth now) rid arr f)"
  by (simp add: dueThisMonth_def setFeeData_def month_start_le_last date_le_refl)

lemma setFeeData_id: "fee_id (setFeeData sid amt due rid arr f) = fee_id f"
  by (simp add: setFeeData_def)

lemma findByIdAndUpdate_found:
  "find P fs = Some e \<Longrightarrow> distinct (map fee_id fs) \<Longrightarrow>
     findByIdAndUpdate (fee_id e) upd fs =
       (Some (upd e), map (\<lambda>f. if fee_id f = fee_id e then upd f else f) fs)"
proof (induction fs)
  case Nil
  then show ?case by simp
next
  case (Cons f fs)
  show ?case
  proof (cases "P f")
    case True
    with Cons.prems have e: "e = f" by simp
    from Cons.prems have "fee_id f \<notin> fee_id ` set fs" by simp
    then have "\<forall>x\<in>set fs. fee_id x \<noteq> fee_id f" by (metis imageI)
    then have "map (\<lambda>x. if fee_id x = fee_id f then upd x else x) fs = fs"
      by (induction fs) auto
    with e show ?thesis by simp
  next
    case False
    with Cons.prems have fnd: "find P fs = Some e" by simp
    then have "e \<in> set fs" by (auto simp add: find_Some_iff)
    with Cons.prems have ne: "fee_id f \<noteq> fee_id e" by auto
    from Cons.prems have "distinct (map fee_id fs)" by simp
    with Cons.IH fnd ne show ?thesis by simp
  qed
qed

lemma fold_max_ge: "a \<le> fold max xs (a::nat)"
proof (induction xs arbitrary: a)
  case Nil
  show ?case by simp
next
  case (Cons y ys)
  have "a \<le> max y a" by simp
  also have "\<dots> \<le> fold max ys (max y a)" by (rule Cons.IH)
  finally show ?case by simp
qed

lemma fold_max_mem: "x \<in> set xs \<Longrightarrow> x \<le> fold max xs (a::nat)"
proof (induction xs arbitrary: a)
  case Nil
  then show ?case by simp
next
  case (Cons y ys)
  show ?case
  proof (cases "x = y")
    case True
    have "y \<le> max y a" by simp
    also have "\<dots> \<le> fold max ys (max y a)" by (rule fold_max_ge)
    finally show ?thesis using True by simp
  next
    case False
    with Cons show ?thesis by simp
  qed
qed

lemma freshId_fresh: "freshId fees \<notin> fee_id ` set fees"
proof
  assume "freshId fees \<in> fee_id ` set fees"
  then have "freshId fees \<in> set (map fee_id fees)" by simp
  then have "freshId fees \<le> fold max (map fee_id fees) 0" by (rule fold_max_mem)
  then show False by (simp add: freshId_def)
qed

text \<open>What one call does to the collection, in both branches.\<close>

lemma createInitialFeeRecord_cases:
  assumes d: "distinct (map fee_id fees)"
    and c: "createInitialFeeRecord ops fees now (Some sid) (Some rid) a = (r, fees')"
  shows "(\<exists>e. find (dueThisMonth sid now) fees = Some e \<and>
              r = Some (setFeeData sid (amountOrZero ops a) (lastDayOfMonth now) rid
                         (calculateStudentArrears ops (Some fees) now (Some sid)) e) \<and>
              fees' = map (\<lambda>f. if fee_id f = fee_id e
                        then setFeeData sid (amountOrZero ops a) (lastDayOfMonth now) rid
                               (calculateStudentArrears ops (Some fees) now (Some sid)) f
                        else f) fees) \<or>
         (find (dueThisMonth sid now) fees = None \<and>
          (\<exists>doc. r = Some doc \<and> fees' = fees @ [doc] \<and> fee_id doc = freshId fees \<and>
                 dueThisMonth sid now doc))"
proof (cases "find (dueThisMonth sid now) fees")
  case None
  with c show ?thesis
    by (auto simp add: createInitialFeeRecord_def findExistingFee_def Fee_create_def Let_def
        preSave_frame dueThisMonth_def month_start_le_last date_le_refl)
next
  case (Some e)
  with c findByIdAndUpdate_found [OF Some d] show ?thesis
    by (simp add: createInitialFeeRecord_def findExistingFee_def Let_def)
qed

lemma createInitialFeeRecord_keeps:
  assumes d: "distinct (map fee_id fees)"
    and c: "createInitialFeeRecord ops fees now (Some sid) (Some rid) a = (r, fees')"
  shows "distinct (map fee_id fees') \<and> find (dueThisMonth sid now) fees' \<noteq> None \<and>
         (\<exists>e. r = Some e \<and> dueThisMonth sid now e \<and> e \<in> set fees')"
  using createInitialFeeRecord_cases [OF d c]
proof (elim disjE exE conjE)
  fix e
  let ?upd = "setFeeData sid (amountOrZero ops a) (lastDayOfMonth now) rid
                (calculateStudentArrears ops (Some fees) now (Some sid))"
  assume f: "find (dueThisMonth sid now) fees = Some e"
    and r: "r = Some (?upd e)"
    and fs: "fees' = map (\<lambda>f. if fee_id f = fee_id e then ?upd f else f) fees"
  have ids: "map fee_id fees' = map fee_id fees"
    unfolding fs by (induction fees) (simp_all add: setFeeData_id)
  from f have ein: "e \<in> set fees" by (auto simp add: find_Some_iff)
  then have uin: "?upd e \<in> set fees'" unfolding fs by force
  have due: "dueThisMonth sid now (?upd e)" by (rule setFeeData_due)
  from uin due have "find (dueThisMonth sid now) fees' \<noteq> None"
    by (auto simp add: find_None_iff)
  with ids d r uin due show ?thesis by simp
next
  fix doc
  assume "r = Some doc" "fees' = fees @ [doc]" "fee_id doc = freshId fees"
    "dueThisMonth sid now doc"
  with d freshId_fresh [of fees] show ?thesis
    by (auto simp add: find_None_iff)
qed

lemma find_app:
  "find P (xs @ ys) = (case find P xs of None \<Rightarrow> find P ys | Some x \<Rightarrow> Some x)"
  by (induction xs) simp_all

lemma updated_count:
  assumes f: "find P fs = Some e" and u: "\<And>x. P (upd x)"
    and d: "distinct (map fee_id fs)"
  shows "length (filter P (map (\<lambda>x. if fee_id x = fee_id e then upd x else x) fs)) =
         length (filter P fs)"
proof -
  from f have ein: "e \<in> set fs" and pe: "P e" by (auto simp add: find_Some_iff)
  have "\<forall>x\<in>set fs. P (if fee_id x = fee_id e then upd x else x) = P x"
  proof
    fix x assume x: "x \<in> set fs"
    show "P (if fee_id x = fee_id e then upd x else x) = P x"
    proof (cases "fee_id x = fee_id e")
      case True
      with d x ein have "x = e" by (meson distinct_map inj_onD)
      with pe u True show ?thesis by simp
    next
      case False
      then show ?thesis by simp
    qed
  qed
  then show ?thesis
    by (induction fs) auto
qed

text \<open>
  C6. Two calls of \<open>createInitialFeeRecord\<close> for the same student within one calendar
  month (document ids being unique in the collection): the second call creates nothing,
  it updates a tuition record of that month in place and returns it; when the student
  had no tuition record for the month before the first call, the record the second call
  returns is the one the first call created, and it is the only one for that month.
  A missing student id or recorder id gives \<open>null\<close> and leaves the collection as it was.
\<close>

theorem createInitialFeeRecord_idempotent:
  assumes m: "fullYear now2 = fullYear now1" "monthIdx now2 = monthIdx now1"
    and d: "distinct (map fee_id fees)"
    and c1: "createInitialFeeRecord ops fees now1 (Some sid) (Some rid1) a1 = (r1, fees1)"
    and c2: "createInitialFeeRecord ops fees1 now2 (Some sid) (Some rid2) a2 = (r2, fees2)"
  shows "length fees2 = length fees1 \<and>
         map fee_id fees2 = map fee_id fees1 \<and>
         length (filter (dueThisMonth sid now1) fees2) =
           length (filter (dueThisMonth sid now1) fees1) \<and>
         (\<exists>e1 e2. r1 = Some e1 \<and> r2 = Some e2 \<and> e2 \<in> set fees2 \<and>
              dueThisMonth sid now1 e2 \<and>
              (filter (dueThisMonth sid now1) fees = [] \<longrightarrow>
                 fee_id e2 = fee_id e1 \<and> filter (dueThisMonth sid now1) fees2 = [e2])) \<and>
         createInitialFeeRecord ops fees now1 None recordedById a1 = (None, fees) \<and>
         createInitialFeeRecord ops fees now1 studentId None a1 = (None, fees)"
proof -
  let ?P = "dueThisMonth sid now1"
  have P2: "dueThisMonth sid now2 = ?P" using m by (rule same_month_dueThisMonth)
  have last2: "lastDayOfMonth now2 = lastDayOfMonth now1" using m by (simp add: lastDayOfMonth_def)
  from createInitialFeeRecord_keeps [OF d c1]
  have d1: "distinct (map fee_id fees1)" and ex1: "find ?P fees1 \<noteq> None"
    and r1: "\<exists>e. r1 = Some e \<and> ?P e \<and> e \<in> set fees1" by simp_all
  from ex1 obtain e where e: "find ?P fees1 = Some e" by auto
  let ?upd = "setFeeData sid (amountOrZero ops a2) (lastDayOfMonth now1) rid2
                (calculateStudentArrears ops (Some fees1) now2 (Some sid))"
  from createInitialFeeRecord_cases [OF d1 c2] e
  have r2: "r2 = Some (?upd e)"
    and fs2: "fees2 = map (\<lambda>f. if fee_id f = fee_id e then ?upd f else f) fees1"
    by (simp_all add: P2 last2)
  have updP: "\<And>x. ?P (?upd x)" by (rule setFeeData_due)
  have len: "length fees2 = length fees1" unfolding fs2 by simp
  have ids: "map fee_id fees2 = map fee_id fees1"
    unfolding fs2 by (induction fees1) (simp_all add: setFeeData_id)
  have cnt: "length (filter ?P fees2) = length (filter ?P fees1)"
    unfolding fs2 using e updP d1 by (rule updated_count)
  from e have ein: "e \<in> set fees1" by (auto simp add: find_Some_iff)
  then have e2in: "?upd e \<in> set fees2" unfolding fs2 by force
  from r1 obtain e1 where e1: "r1 = Some e1" "?P e1" "e1 \<in> set fees1" by auto
  have single: "fee_id (?upd e) = fee_id e1 \<and> filter ?P fees2 = [?upd e]"
    if none: "filter ?P fees = []"
  proof -
    from none have nf: "find ?P fees = None" by (auto simp add: find_None_iff filter_empty_conv)
    with createInitialFeeRecord_cases [OF d c1] e1
    have app: "fees1 = fees @ [e1]" and fid: "fee_id e1 = freshId fees" by auto
    from app nf e e1 have ee: "e = e1" by (simp add: find_app)
    have f1: "filter ?P fees1 = [e1]" using app none e1 by simp
    have others: "\<forall>x\<in>set fees. fee_id x \<noteq> fee_id e1"
      using freshId_fresh [of fees] fid by (metis imageI)
    then have "map (\<lambda>f. if fee_id f = fee_id e1 then ?upd f else f) fees = fees"
      by (induction fees) auto
    with fs2 app ee have "fees2 = fees @ [?upd e1]" by simp
    with none updP [of e1] have "filter ?P fees2 = [?upd e1]" by simp
    with ee show ?thesis by (simp add: setFeeData_id)
  qed
  have nulls: "createInitialFeeRecord ops fees now1 None recordedById a1 = (None, fees) \<and>
         createInitialFeeRecord ops fees now1 studentId None a1 = (None, fees)"
    by (simp add: createInitialFeeRecord_def split: option.splits)
  have res: "\<exists>e1 e2. r1 = Some e1 \<and> r2 = Some e2 \<and> e2 \<in> set fees2 \<and> ?P e2 \<and>
              (filter ?P fees = [] \<longrightarrow> fee_id e2 = fee_id e1 \<and> filter ?P fees2 = [e2])"
  proof (intro exI conjI impI)
    show "r1 = Some e1" by (rule e1)
    show "r2 = Some (?upd e)" by (rule r2)
    show "?upd e \<in> set fees2" by (rule e2in)
    show "?P (?upd e)" by (rule updP)
    show "fee_id (?upd e) = fee_id e1" if "filter ?P fees = []" using single [OF that] by simp
    show "filter ?P fees2 = [?upd e]" if "filter ?P fees = []" using single [OF that] by simp
  qed
  from len ids cnt res nulls show ?thesis by blast
qed

theorem createInitialFeeRecord_idempotent_witness:
  "createInitialFeeRecord intNumbers []
     \<lparr>fullYear = 2024, monthIdx = 2, dayOfMonth = 10, msOfDay = 0\<rparr> (Some 7) (Some 3) (Some 500) =
     (Some \<lparr>fee_id = 1, student = 7, feeType = ''tuition'', amount = 500,
        dueDate = \<lparr>fullYear = 2024, monthIdx = 2, dayOfMonth = 31, msOfDay = 0\<rparr>,
        paymentDate = None, status = Unpaid, paidAmount = 0, remainingAmount = 500,
        arrears = 0, recordedBy = 3\<rparr>,
      [\<lparr>fee_id = 1, student = 7, feeType = ''tuition'', amount = 500,
        dueDate = \<lparr>fullYear = 2024, monthIdx = 2, dayOfMonth = 31, msOfDay = 0\<rparr>,
        paymentDate = None, status = Unpaid, paidAmount = 0, remainingAmount = 500,
        arrears = 0, recordedBy = 3\<rparr>]) \<and>
   createInitialFeeRecord intNumbers
     [\<lparr>fee_id = 1, student = 7, feeType = ''tuition'', amount = 500,
        dueDate = \<lparr>fullYear = 2024, monthIdx = 2, dayOfMonth = 31, msOfDay = 0\<rparr>,
        paymentDate = None, status = Unpaid, paidAmount = 0, remainingAmount = 500,
        arrears = 0, recordedBy = 3\<rparr>]
     \<lparr>fullYear = 2024, monthIdx = 2, dayOfMonth = 20, msOfDay = 0\<rparr> (Some 7) (Some 4) (Some 600) =
     (Some \<lparr>fee_id = 1, student = 7, feeType = ''tuition'', amount = 600,
        dueDate = \<lparr>fullYear = 2024, monthIdx = 2, dayOfMonth = 31, msOfDay = 0\<rparr>,
        paymentDate = None, status = Unpaid, paidAmount = 0, remainingAmount = 500,
        arrears = 0, recordedBy = 4\<rparr>,
      [\<lparr>fee_id = 1, student = 7, feeType = ''tuition'', amount = 600,
        dueDate = \<lparr>fullYear = 2024, monthIdx = 2, dayOfMonth = 31, msOfDay = 0\<rparr>,
        paymentDate = None, status = Unpaid, paidAmount = 0, remainingAmount = 500,
        arrears = 0, recordedBy = 4\<rparr>])"
proof -
  let ?n1 = "\<lparr>fullYear = 2024, monthIdx = 2, dayOfMonth = 10, msOfDay = 0\<rparr>"
  let ?n2 = "\<lparr>fullYear = 2024, monthIdx = 2, dayOfMonth = 20, msOfDay = 0\<rparr>"
  let ?d1 = "\<lparr>fee_id = 1, student = 7, feeType = ''tuition'', amount = 500::int,
        dueDate = \<lparr>fullYear = 2024, monthIdx = 2, dayOfMonth = 31, msOfDay = 0\<rparr>,
        paymentDate = None, status = Unpaid, paidAmount = 0, remainingAmount = 500,
        arrears = 0, recordedBy = 3\<rparr>"
  let ?d2 = "\<lparr>fee_id = 1, student = 7, feeType = ''tuition'', amount = 600::int,
        dueDate = \<lparr>fullYear = 2024, monthIdx = 2, dayOfMonth = 31, msOfDay = 0\<rparr>,
        paymentDate = None, status = Unpaid, paidAmount = 0, remainingAmount = 500,
        arrears = 0, recordedBy = 4\<rparr>"
  have c1: "createInitialFeeRecord intNumbers [] ?n1 (Some 7) (Some 3) (Some 500) = (Some ?d1, [?d1])"
    by (simp add: createInitialFeeRecord_def findExistingFee_def Fee_create_def freshId_def
        calculateStudentArrears_def previousFees_def lastDayOfMonth_def daysInMonth_def
        hook_defs date_lt_def Let_def amountOrZero_def intNumbers_def)
  have c2: "createInitialFeeRecord intNumbers [?d1] ?n2 (Some 7) (Some 4) (Some 600) = (Some ?d2, [?d2])"
    by (simp add: createInitialFeeRecord_def findExistingFee_def dueThisMonth_def
        calculateStudentArrears_def previousFees_def lastDayOfMonth_def startOfMonth_def
        daysInMonth_def setFeeData_def date_lt_def date_le_def Let_def amountOrZero_def
        intNumbers_def)
  have m1: "fullYear ?n2 = fullYear ?n1" and m2: "monthIdx ?n2 = monthIdx ?n1" by simp_all
  have d: "distinct (map fee_id ([]::int fee list))" by simp
  from createInitialFeeRecord_idempotent [OF m1 m2 d c1 c2] c1 c2 show ?thesis by simp
qed

section \<open>Verification of the CSV parser\<close>

lemma csvScan_run:
  "DQUOTE \<notin> set s \<Longrightarrow> inQ \<or> COMMA \<notin> set s \<Longrightarrow>
     csvScan prev inQ cur row (s @ rest) =
       csvScan (if s = [] then prev else Some (last s)) inQ (cur @ s) row rest"
proof (induction s arbitrary: prev cur)
  case Nil
  show ?case by simp
next
  case (Cons c s)
  from Cons.prems have c: "c \<noteq> DQUOTE" "inQ \<or> c \<noteq> COMMA" by auto
  from Cons.prems have s: "DQUOTE \<notin> set s" "inQ \<or> COMMA \<notin> set s" by auto
  have "csvScan prev inQ cur row ((c # s) @ rest) = csvScan (Some c) inQ (cur @ [c]) row (s @ rest)"
    using c by auto
  also have "\<dots> = csvScan (if s = [] then Some c else Some (last s)) inQ ((cur @ [c]) @ s) row rest"
    using s by (rule Cons.IH)
  finally show ?case by simp
qed

lemma csvScan_field:
  assumes ok: "csvFieldOk f" and prev: "prev \<noteq> Some BACKSLASH"
  shows "\<exists>p. csvScan prev False cur row (csvField f @ rest) =
              csvScan p False (cur @ snd f) row rest"
proof (cases "fst f")
  case False
  with ok have "DQUOTE \<notin> set (snd f)" "False \<or> COMMA \<notin> set (snd f)"
    by (simp_all add: csvFieldOk_def)
  from csvScan_run [OF this] False show ?thesis
    by (auto simp add: csvField_def)
next
  case True
  let ?s = "snd f"
  from ok True have nq: "DQUOTE \<notin> set ?s" and nb: "?s = [] \<or> last ?s \<noteq> BACKSLASH"
    by (simp_all add: csvFieldOk_def)
  let ?p = "if ?s = [] then Some DQUOTE else Some (last ?s)"
  have "csvScan prev False cur row (csvField f @ rest) =
        csvScan (Some DQUOTE) True cur row (?s @ DQUOTE # rest)"
    using True prev by (auto simp add: csvField_def)
  also have "\<dots> = csvScan ?p True (cur @ ?s) row (DQUOTE # rest)"
    using nq by (rule csvScan_run) simp
  also have "\<dots> = csvScan (Some DQUOTE) False (cur @ ?s) row rest"
    using nb by auto
  finally show ?thesis by blast
qed

lemma csvScan_fields:
  "fs \<noteq> [] \<Longrightarrow> list_all csvFieldOk fs \<Longrightarrow> prev \<noteq> Some BACKSLASH \<Longrightarrow>
     csvScan prev False [] row (joinWith [COMMA] (map csvField fs)) = row @ map snd fs"
proof (induction fs arbitrary: prev row)
  case Nil
  then show ?case by simp
next
  case (Cons f gs)
  from Cons.prems have okf: "csvFieldOk f" by simp
  show ?case
  proof (cases gs)
    case Nil
    from csvScan_field [OF okf Cons.prems(3), of "[]" row "[]"] Nil
    show ?thesis by auto
  next
    case (Cons g hs)
    let ?rest = "joinWith [COMMA] (map csvField gs)"
    from csvScan_field [OF okf Cons.prems(3), of "[]" row "COMMA # ?rest"]
    obtain p where "csvScan prev False [] row (csvField f @ COMMA # ?rest) =
                    csvScan p False (snd f) row (COMMA # ?rest)" by auto
    also have "\<dots> = csvScan (Some COMMA) False [] (row @ [snd f]) ?rest" by simp
    also have "\<dots> = (row @ [snd f]) @ map snd gs"
      using Cons Cons.prems by (intro Cons.IH) simp_all
    finally show ?thesis using Cons by simp
  qed
qed

lemma removeQuotes_plain: "DQUOTE \<notin> set s \<Longrightarrow> removeQuotes s = s"
  by (cases s) (auto simp add: removeQuotes_def)

text \<open>
  C9. The line parser splits a line on the commas outside double-quoted regions and
  keeps the commas inside them: for a line made of one or more fields joined by commas,
  each field either plain (no comma, no double quote) or written between double quotes
  (no double quote inside, no backslash just before the closing quote), it returns
  exactly the contents of the fields, in order. The line \<open>John,"Doe, Jr.",30\<close> gives
  \<open>John\<close>, \<open>Doe, Jr.\<close> and \<open>30\<close>.
\<close>

theorem parseCsvLine_fields:
  assumes "fs \<noteq> []" and "list_all csvFieldOk fs"
  shows "parseCsvLine (joinWith [COMMA] (map csvField fs)) = map snd fs"
proof -
  have "csvScan None False [] [] (joinWith [COMMA] (map csvField fs)) = [] @ map snd fs"
    using assms by (intro csvScan_fields) simp_all
  moreover have "map removeQuotes (map snd fs) = map snd fs"
    using assms(2) by (induction fs) (simp_all add: removeQuotes_plain csvFieldOk_def)
  ultimately show ?thesis by (simp add: parseCsvLine_def)
qed

theorem parseCsvLine_fields_witness:
  "parseCsvLine (''John,'' @ [DQUOTE] @ ''Doe, Jr.'' @ [DQUOTE] @ '',30'') =
     [''John'', ''Doe, Jr.'', ''30'']"
  using parseCsvLine_fields [of "[(False, ''John''), (True, ''Doe, Jr.''), (False, ''30'')]"]
  by (simp add: csvField_def csvFieldOk_def)

text \<open>
  The claim C8 as stated fails for a header cell that starts with an opening
  parenthesis: the text before the parenthesis is empty, but the key is the whole cell,
  and parsing goes on. It also fails for a header cell holding the number 0, whose
  display text is \<open>0\<close> and whose key is empty.
\<close>

theorem header_paren_counterexample:
  "cleanHeader (Str ''(Optional)'') = ''(Optional)'' \<and>
   trim (takeWhile (\<lambda>c. c \<noteq> LPAREN) ''(Optional)'') = [] \<and>
   parseFile (CsvFile (Inr (''firstName,(Optional)'' @ [LF] @ ''John,x''))) =
     Inr [[(''firstName'', Str ''John''), (''(Optional)'', Str ''x'')]] \<and>
   cleanHeader (NonString False ''0'' None) = [] \<and>
   trim (takeWhile (\<lambda>c. c \<noteq> LPAREN) (cellString (NonString False ''0'' None))) = ''0''"
  by code_simp

lemma cleanHeader_cases:
  "cleanHeader h =
     (if \<not> cellTruthy h then []
      else if headerText h \<noteq> [] \<and> hd (headerText h) = LPAREN then trim (headerText h)
      else trim (takeWhile (\<lambda>c. c \<noteq> LPAREN) (headerText h)))"
proof (cases "headerText h")
  case Nil
  then show ?thesis by (simp add: cleanHeader_def matchBeforeParen_def trim_def)
next
  case (Cons c cs)
  then show ?thesis by (simp add: cleanHeader_def matchBeforeParen_def Let_def)
qed

lemma empty_header_message:
  "parseCatch ''Empty column headers found. Please ensure all columns have headers.'' =
   ''Error parsing file: Empty column headers found. Please ensure all columns have headers.. Please check the file format.''"
  by code_simp

text \<open>
  C8 (amended). The key of a header cell is empty when the cell is falsy (empty, the
  number 0, \<open>false\<close>); otherwise it is the text of the cell (the segments of a rich
  text joined, the display text of any other value) before the first opening
  parenthesis, trimmed, unless the text starts with that parenthesis, in which case the
  key is the whole text, trimmed. For every uploaded file, CSV or spreadsheet, that has
  a header row and a further row: when some header key is empty (as for
  \<open>"   (Optional)"\<close>), \<open>parseFile\<close> throws before it builds any row, and the student
  and teacher importers answer with an error, store nothing and write no history.
\<close>

theorem header_keys:
  "cleanHeader h =
     (if \<not> cellTruthy h then []
      else if headerText h \<noteq> [] \<and> hd (headerText h) = LPAREN then trim (headerText h)
      else trim (takeWhile (\<lambda>c. c \<noteq> LPAREN) (headerText h))) \<and>
   headerText (Str s) = s \<and>
   headerText (NonString t x None) = x \<and>
   headerText (NonString t x (Some segments)) = concat segments \<and>
   rawDataOf (CsvFile (Inr content)) = Inr (map (map Str) (csvRawData content)) \<and>
   (2 \<le> rowCount ws \<longrightarrow> rawDataOf (Spreadsheet (Inr (ws # others))) = Inr (sheetRawData ws)) \<and>
   (rawDataOf up = Inr raw \<and> 2 \<le> length raw \<and> [] \<in> set (map cleanHeader (hd raw)) \<longrightarrow>
      parseFile up =
        Inl ''Error parsing file: Empty column headers found. Please ensure all columns have headers.. Please check the file format.'' \<and>
      uploadStudents p (Some up) d =
        (Failure 400
           ''Error parsing file: Empty column headers found. Please ensure all columns have headers.. Please check the file format.'',
         None, d) \<and>
      uploadTeachers y p (Some up) d = (Failure 500 ''Error processing file'', None, d))"
proof -
  have abort: "parseFile up =
        Inl ''Error parsing file: Empty column headers found. Please ensure all columns have headers.. Please check the file format.''"
    if r: "rawDataOf up = Inr raw" and l: "2 \<le> length raw"
      and e: "[] \<in> set (map cleanHeader (hd raw))"
  proof -
    from e obtain x where "x \<in> set (hd raw)" "cleanHeader x = []"
      by (metis imageE set_map)
    then have "filter (\<lambda>h. h = []) (map cleanHeader (hd raw)) \<noteq> []"
      by (auto simp add: filter_empty_conv)
    with l have "tableOf raw =
        Inl ''Empty column headers found. Please ensure all columns have headers.''"
      by (simp add: tableOf_def Let_def)
    with r show ?thesis by (simp add: parseFile_def empty_header_message)
  qed
  have texts: "headerText (Str s) = s \<and> headerText (NonString t x None) = x \<and>
      headerText (NonString t x (Some segments)) = concat segments"
    by (simp add: headerText_def)
  have raws: "rawDataOf (CsvFile (Inr content)) = Inr (map (map Str) (csvRawData content)) \<and>
      (2 \<le> rowCount ws \<longrightarrow> rawDataOf (Spreadsheet (Inr (ws # others))) = Inr (sheetRawData ws))"
    by (simp add: rawDataOf_def)
  have stops: "parseFile up =
        Inl ''Error parsing file: Empty column headers found. Please ensure all columns have headers.. Please check the file format.'' \<and>
      uploadStudents p (Some up) d =
        (Failure 400
           ''Error parsing file: Empty column headers found. Please ensure all columns have headers.. Please check the file format.'',
         None, d) \<and>
      uploadTeachers y p (Some up) d = (Failure 500 ''Error processing file'', None, d)"
    if "rawDataOf up = Inr raw \<and> 2 \<le> length raw \<and> [] \<in> set (map cleanHeader (hd raw))"
  proof -
    from that have "parseFile up =
        Inl ''Error parsing file: Empty column headers found. Please ensure all columns have headers.. Please check the file format.''"
      by (intro abort) simp_all
    then show ?thesis by (simp add: uploadStudents_def uploadTeachers_def)
  qed
  from cleanHeader_cases [of h] texts raws stops show ?thesis by blast
qed

theorem header_keys_witness:
  "cleanHeader (Str ''rollNumber (REQUIRED, unique)'') = ''rollNumber'' \<and>
   cleanHeader (Str ''   (Optional)'') = [] \<and>
   cleanHeader (NonString True ''[object Object]'' (Some [''roll'', ''Number (unique)''])) =
     ''rollNumber'' \<and>
   uploadStudents
     \<lparr>userError = \<lambda>d r. None, profileError = \<lambda>d r. None, historyError = \<lambda>h. None,
      castError = \<lambda>v. None\<rparr>
     (Some (CsvFile (Inr (''firstName,   (Optional)'' @ [LF] @ ''John,x''))))
     \<lparr>users = [], studentRolls = [], teachers = [], adminStaff = [], supportStaff = []\<rparr> =
     (Failure 400
        ''Error parsing file: Empty column headers found. Please ensure all columns have headers.. Please check the file format.'',
      None,
      \<lparr>users = [], studentRolls = [], teachers = [], adminStaff = [], supportStaff = []\<rparr>) \<and>
   uploadStudents
     \<lparr>userError = \<lambda>d r. None, profileError = \<lambda>d r. None, historyError = \<lambda>h. None,
      castError = \<lambda>v. None\<rparr>
     (Some (Spreadsheet (Inr
        [\<lparr>rowCount = 2,
          sheetRows = [(1, [Some (Str ''firstName''), None, Some (Str ''lastName'')]),
                       (2, [Some (Str ''John''), None, Some (Str ''Doe'')])]\<rparr>])))
     \<lparr>users = [], studentRolls = [], teachers = [], adminStaff = [], supportStaff = []\<rparr> =
     (Failure 400
        ''Error parsing file: Empty column headers found. Please ensure all columns have headers.. Please check the file format.'',
      None,
      \<lparr>users = [], studentRolls = [], teachers = [], adminStaff = [], supportStaff = []\<rparr>)"
proof -
  let ?p = "\<lparr>userError = \<lambda>d r. None, profileError = \<lambda>d r. None, historyError = \<lambda>h. None,
      castError = \<lambda>v. None\<rparr>"
  let ?d = "\<lparr>users = [], studentRolls = [], teachers = [], adminStaff = [], supportStaff = []\<rparr>"
  let ?csv = "CsvFile (Inr (''firstName,   (Optional)'' @ [LF] @ ''John,x''))"
  let ?ws = "\<lparr>rowCount = 2,
          sheetRows = [(1, [Some (Str ''firstName''), None, Some (Str ''lastName'')]),
                       (2, [Some (Str ''John''), None, Some (Str ''Doe'')])]\<rparr>"
  let ?xls = "Spreadsheet (Inr [?ws])"
  let ?raw1 = "[[Str ''firstName'', Str ''   (Optional)''], [Str ''John'', Str ''x'']]"
  let ?raw2 = "[[Str ''firstName'', Str [], Str ''lastName''], [Str ''John'', Str [], Str ''Doe'']]"
  have h1: "cleanHeader (Str ''rollNumber (REQUIRED, unique)'') = ''rollNumber''" by code_simp
  have h2: "cleanHeader (Str ''   (Optional)'') = []" by code_simp
  have h3: "cleanHeader (NonString True ''[object Object]'' (Some [''roll'', ''Number (unique)''])) =
     ''rollNumber''" by code_simp
  have h4: "cleanHeader (Str []) = []" by code_simp
  have r1: "rawDataOf ?csv = Inr ?raw1" by code_simp
  have r2: "rawDataOf ?xls = Inr ?raw2" by code_simp
  have c1: "rawDataOf ?csv = Inr ?raw1 \<and> 2 \<le> length ?raw1 \<and>
      [] \<in> set (map cleanHeader (hd ?raw1))" using r1 h2 by simp
  have c2: "rawDataOf ?xls = Inr ?raw2 \<and> 2 \<le> length ?raw2 \<and>
      [] \<in> set (map cleanHeader (hd ?raw2))" using r2 h4 by simp
  note t = header_keys [THEN conjunct2, THEN conjunct2, THEN conjunct2, THEN conjunct2,
      THEN conjunct2, THEN conjunct2, rule_format]
  from t [OF c1, of ?p ?d] have u1: "uploadStudents ?p (Some ?csv) ?d =
     (Failure 400
        ''Error parsing file: Empty column headers found. Please ensure all columns have headers.. Please check the file format.'',
      None, ?d)" by blast
  from t [OF c2, of ?p ?d] have u2: "uploadStudents ?p (Some ?xls) ?d =
     (Failure 400
        ''Error parsing file: Empty column headers found. Please ensure all columns have headers.. Please check the file format.'',
      None, ?d)" by blast
  from h1 h2 h3 u1 u2 show ?thesis by (intro conjI)
qed

section \<open>Verification of the importers\<close>

















lemma importLoop_run:
  "importLoop step i rows (d, sc, ec, errs) = (d', sc', ec', errs') \<Longrightarrow>
     sc' + ec' = sc + ec + length rows \<and>
     ec' = ec + length (filter (\<lambda>m. m \<noteq> None) (rowOutcomes step d rows)) \<and>
     errs' = errs @ reported i (rowOutcomes step d rows)"
proof (induction rows arbitrary: i d sc ec errs)
  case Nil
  then show ?case by (simp add: reported_def)
next
  case (Cons r rs)
  obtain d1 m where st: "step d r = (d1, m)" by (cases "step d r")
  show ?case
  proof (cases m)
    case None
    with Cons.prems st
    have "importLoop step (i + 1) rs (d1, sc + 1, ec, errs) = (d', sc', ec', errs')" by simp
    from Cons.IH [OF this] st None show ?thesis
      by (simp add: reported_def)
  next
    case (Some msg)
    with Cons.prems st
    have "importLoop step (i + 1) rs (d1, sc, ec + 1, errs @ [(i + 2, msg)]) =
          (d', sc', ec', errs')" by simp
    from Cons.IH [OF this] st Some show ?thesis
      by (simp add: reported_def)
  qed
qed










lemma importStatus_cases:
  "0 < sc + ec \<Longrightarrow>
     (importStatus sc ec = ''success'') = (ec = 0) \<and>
     (importStatus sc ec = ''failed'') = (sc = 0) \<and>
     (importStatus sc ec = ''partial'') = (ec \<noteq> 0 \<and> sc \<noteq> 0)"
  by (auto simp add: importStatus_def)

text \<open>
  The accounting of the student and teacher importers: whenever the import completes,
  the counts add up to the number of records and the stored status follows them.
\<close>

lemma studentsCatch_failure: "studentsCatch m \<noteq> Processed r"
  by (simp add: studentsCatch_def)

lemma finishImport_processed:
  assumes "finishImport p onError kind nRecords (d1, sc, ec, errs) = (Processed res, h, d')"
    and "\<And>m. onError m \<noteq> Processed res"
  shows "res = \<lparr>totalRecords = nRecords, successCount = sc, errorCount = ec, errors = errs\<rparr> \<and>
         h = Some \<lparr>userType = kind, uploadStatus = importStatus sc ec, summary = res\<rparr> \<and>
         d' = d1"
  using assms by (auto simp add: finishImport_def Let_def split: option.splits)

lemma uploadStudents_accounting:
  assumes "uploadStudents p file d = (Processed res, h, d')"
  shows "totalRecords res = Some (successCount res + errorCount res) \<and>
         0 < successCount res + errorCount res \<and>
         h = Some \<lparr>userType = ''student'',
                   uploadStatus = importStatus (successCount res) (errorCount res),
                   summary = res\<rparr>"
proof -
  from assms obtain up students where f: "file = Some up"
    and pf: "parseFile up = Inr students" and ne: "students \<noteq> []"
    by (auto simp add: uploadStudents_def split: option.splits sum.splits if_splits)
  obtain d1 sc ec errs where
    lp: "importLoop (studentRow p) 0 students (d, 0, 0, []) = (d1, sc, ec, errs)"
    by (metis prod_cases4)
  from importLoop_run [OF lp] have sum: "sc + ec = length students" by simp
  from assms f pf ne lp
  have "finishImport p studentsCatch ''student'' (Some (length students)) (d1, sc, ec, errs) =
        (Processed res, h, d')"
    by (simp add: uploadStudents_def)
  from finishImport_processed [OF this studentsCatch_failure] sum ne show ?thesis
    by auto
qed

lemma uploadTeachers_accounting:
  assumes "uploadTeachers y p file d = (Processed res, h, d')"
  shows "totalRecords res = Some (successCount res + errorCount res) \<and>
         0 < successCount res + errorCount res \<and>
         h = Some \<lparr>userType = ''teacher'',
                   uploadStatus = importStatus (successCount res) (errorCount res),
                   summary = res\<rparr>"
proof -
  from assms obtain up rows where f: "file = Some up"
    and pf: "parseFile up = Inr rows" and ne: "rows \<noteq> []"
    by (auto simp add: uploadTeachers_def split: option.splits sum.splits if_splits)
  obtain d1 sc ec errs where
    lp: "importLoop (teacherRow y p) 0 rows (d, 0, 0, []) = (d1, sc, ec, errs)"
    by (metis prod_cases4)
  from importLoop_run [OF lp] have sum: "sc + ec = length rows" by simp
  from assms f pf ne lp
  have "finishImport p (\<lambda>message. Failure 500 ''Error processing file'') ''teacher''
          (Some (length rows)) (d1, sc, ec, errs) = (Processed res, h, d')"
    by (simp add: uploadTeachers_def)
  from finishImport_processed [OF this] sum ne show ?thesis
    by auto
qed

text \<open>What the staff importers do with every file, whatever it holds.\<close>

lemma uploadAdminStaff_any:
  "uploadAdminStaff p (Some up) d =
     (case historyError p
             \<lparr>userType = ''admin-staff'', uploadStatus = ''success'',
              summary = \<lparr>totalRecords = None, successCount = 0, errorCount = 0,
                          errors = []\<rparr>\<rparr> of
        None \<Rightarrow>
          (Processed \<lparr>totalRecords = None, successCount = 0, errorCount = 0, errors = []\<rparr>,
           Some \<lparr>userType = ''admin-staff'', uploadStatus = ''success'',
                 summary = \<lparr>totalRecords = None, successCount = 0, errorCount = 0,
                             errors = []\<rparr>\<rparr>,
           d)
      | Some message \<Rightarrow> (Failure 500 ''Error processing file'', None, d))"
  by (simp add: uploadAdminStaff_def finishImport_def lengthOf_def loopItems_def
      importStatus_def Let_def)

lemma uploadSupportStaff_any:
  "uploadSupportStaff p (Some up) d =
     (case historyError p
             \<lparr>userType = ''support-staff'', uploadStatus = ''success'',
              summary = \<lparr>totalRecords = None, successCount = 0, errorCount = 0,
                          errors = []\<rparr>\<rparr> of
        None \<Rightarrow>
          (Processed \<lparr>totalRecords = None, successCount = 0, errorCount = 0, errors = []\<rparr>,
           Some \<lparr>userType = ''support-staff'', uploadStatus = ''success'',
                 summary = \<lparr>totalRecords = None, successCount = 0, errorCount = 0,
                             errors = []\<rparr>\<rparr>,
           d)
      | Some message \<Rightarrow> (Failure 500 ''Error processing file'', None, d))"
  by (simp add: uploadSupportStaff_def finishImport_def lengthOf_def loopItems_def
      importStatus_def Let_def)



lemma staffChecks_duplicates:
  assumes "filter (\<lambda>f. falsy (getField staff f)) requiredFields = []"
    and "isValidEmail (valueOf staff ''email'')"
  shows "(valueOf staff ''email'' \<in> set accounts \<longrightarrow>
            staffChecks requiredFields accounts employeeIds staff = Some ''Email already exists'') \<and>
         (valueOf staff ''email'' \<notin> set accounts \<and> valueOf staff ''employeeId'' \<in> set employeeIds \<longrightarrow>
            staffChecks requiredFields accounts employeeIds staff =
              Some ''Employee ID already exists'') \<and>
         (valueOf staff ''email'' \<notin> set accounts \<and> valueOf staff ''employeeId'' \<notin> set employeeIds \<longrightarrow>
            staffChecks requiredFields accounts employeeIds staff = None)"
  using assms by (simp add: staffChecks_def)

text \<open>
  C2 does not hold for the admin-staff and support-staff importers (it does for the
  student and teacher importers, \<open>uploadStudents_accounting\<close> and
  \<open>uploadTeachers_accounting\<close>). A file with one valid admin-staff row: \<open>parseFile\<close>
  finds the record and the row body would create it, but the importer, which does not
  await \<open>parseFile\<close>, reports an undefined \<open>totalRecords\<close> with both counts 0; so do
  both staff importers for every file.
\<close>

theorem staff_upload_counts:
  "parseFile
     (CsvFile (Inr (''firstName,lastName,email,employeeId,phoneNumber,qualification,experience,position,department,gender,salary''
      @ [LF] @ ''Ann,Lee,a@b.io,E1,555,MSc,3,Clerk,Office,female,100''))) =
     Inr [[(''firstName'', Str ''Ann''), (''lastName'', Str ''Lee''), (''email'', Str ''a@b.io''),
           (''employeeId'', Str ''E1''), (''phoneNumber'', Str ''555''), (''qualification'', Str ''MSc''),
           (''experience'', Str ''3''), (''position'', Str ''Clerk''), (''department'', Str ''Office''),
           (''gender'', Str ''female''), (''salary'', Str ''100'')]] \<and>
   adminStaffRow \<lparr>userError = \<lambda>d r. None, profileError = \<lambda>d r. None, historyError = \<lambda>h. None,
      castError = \<lambda>v. None\<rparr>
     \<lparr>users = [], studentRolls = [], teachers = [], adminStaff = [], supportStaff = []\<rparr>
     [(''firstName'', Str ''Ann''), (''lastName'', Str ''Lee''), (''email'', Str ''a@b.io''),
      (''employeeId'', Str ''E1''), (''phoneNumber'', Str ''555''), (''qualification'', Str ''MSc''),
      (''experience'', Str ''3''), (''position'', Str ''Clerk''), (''department'', Str ''Office''),
      (''gender'', Str ''female''), (''salary'', Str ''100'')] =
     (\<lparr>users = [''a@b.io''], studentRolls = [], teachers = [], adminStaff = [''E1''],
       supportStaff = []\<rparr>, None) \<and>
   uploadAdminStaff \<lparr>userError = \<lambda>d r. None, profileError = \<lambda>d r. None, historyError = \<lambda>h. None,
      castError = \<lambda>v. None\<rparr>
     (Some (CsvFile (Inr (''firstName,lastName,email,employeeId,phoneNumber,qualification,experience,position,department,gender,salary''
      @ [LF] @ ''Ann,Lee,a@b.io,E1,555,MSc,3,Clerk,Office,female,100''))))
     \<lparr>users = [], studentRolls = [], teachers = [], adminStaff = [], supportStaff = []\<rparr> =
     (Processed \<lparr>totalRecords = None, successCount = 0, errorCount = 0, errors = []\<rparr>,
      Some \<lparr>userType = ''admin-staff'', uploadStatus = ''success'',
            summary = \<lparr>totalRecords = None, successCount = 0, errorCount = 0, errors = []\<rparr>\<rparr>,
      \<lparr>users = [], studentRolls = [], teachers = [], adminStaff = [], supportStaff = []\<rparr>) \<and>
   uploadAdminStaff p (Some up) d =
     (case historyError p
             \<lparr>userType = ''admin-staff'', uploadStatus = ''success'',
              summary = \<lparr>totalRecords = None, successCount = 0, errorCount = 0,
                          errors = []\<rparr>\<rparr> of
        None \<Rightarrow>
          (Processed \<lparr>totalRecords = None, successCount = 0, errorCount = 0, errors = []\<rparr>,
           Some \<lparr>userType = ''admin-staff'', uploadStatus = ''success'',
                 summary = \<lparr>totalRecords = None, successCount = 0, errorCount = 0,
                             errors = []\<rparr>\<rparr>,
           d)
      | Some message \<Rightarrow> (Failure 500 ''Error processing file'', None, d)) \<and>
   uploadSupportStaff p (Some up) d =
     (case historyError p
             \<lparr>userType = ''support-staff'', uploadStatus = ''success'',
              summary = \<lparr>totalRecords = None, successCount = 0, errorCount = 0,
                          errors = []\<rparr>\<rparr> of
        None \<Rightarrow>
          (Processed \<lparr>totalRecords = None, successCount = 0, errorCount = 0, errors = []\<rparr>,
           Some \<lparr>userType = ''support-staff'', uploadStatus = ''success'',
                 summary = \<lparr>totalRecords = None, successCount = 0, errorCount = 0,
                             errors = []\<rparr>\<rparr>,
           d)
      | Some message \<Rightarrow> (Failure 500 ''Error processing file'', None, d))"
proof -
  have "parseFile
     (CsvFile (Inr (''firstName,lastName,email,employeeId,phoneNumber,qualification,experience,position,department,gender,salary''
      @ [LF] @ ''Ann,Lee,a@b.io,E1,555,MSc,3,Clerk,Office,female,100''))) =
     Inr [[(''firstName'', Str ''Ann''), (''lastName'', Str ''Lee''), (''email'', Str ''a@b.io''),
           (''employeeId'', Str ''E1''), (''phoneNumber'', Str ''555''), (''qualification'', Str ''MSc''),
           (''experience'', Str ''3''), (''position'', Str ''Clerk''), (''department'', Str ''Office''),
           (''gender'', Str ''female''), (''salary'', Str ''100'')]]"
    by code_simp
  moreover have "adminStaffRow \<lparr>userError = \<lambda>d r. None, profileError = \<lambda>d r. None, historyError = \<lambda>h. None,
      castError = \<lambda>v. None\<rparr>
     \<lparr>users = [], studentRolls = [], teachers = [], adminStaff = [], supportStaff = []\<rparr>
     [(''firstName'', Str ''Ann''), (''lastName'', Str ''Lee''), (''email'', Str ''a@b.io''),
      (''employeeId'', Str ''E1''), (''phoneNumber'', Str ''555''), (''qualification'', Str ''MSc''),
      (''experience'', Str ''3''), (''position'', Str ''Clerk''), (''department'', Str ''Office''),
      (''gender'', Str ''female''), (''salary'', Str ''100'')] =
     (\<lparr>users = [''a@b.io''], studentRolls = [], teachers = [], adminStaff = [''E1''],
       supportStaff = []\<rparr>, None)"
    by code_simp
  moreover have "uploadAdminStaff \<lparr>userError = \<lambda>d r. None, profileError = \<lambda>d r. None, historyError = \<lambda>h. None,
      castError = \<lambda>v. None\<rparr>
     (Some (CsvFile (Inr (''firstName,lastName,email,employeeId,phoneNumber,qualification,experience,position,department,gender,salary''
      @ [LF] @ ''Ann,Lee,a@b.io,E1,555,MSc,3,Clerk,Office,female,100''))))
     \<lparr>users = [], studentRolls = [], teachers = [], adminStaff = [], supportStaff = []\<rparr> =
     (Processed \<lparr>totalRecords = None, successCount = 0, errorCount = 0, errors = []\<rparr>,
      Some \<lparr>userType = ''admin-staff'', uploadStatus = ''success'',
            summary = \<lparr>totalRecords = None, successCount = 0, errorCount = 0, errors = []\<rparr>\<rparr>,
      \<lparr>users = [], studentRolls = [], teachers = [], adminStaff = [], supportStaff = []\<rparr>)"
    by (simp add: uploadAdminStaff_any)
  moreover have "uploadAdminStaff p (Some up) d =
     (case historyError p
             \<lparr>userType = ''admin-staff'', uploadStatus = ''success'',
              summary = \<lparr>totalRecords = None, successCount = 0, errorCount = 0,
                          errors = []\<rparr>\<rparr> of
        None \<Rightarrow>
          (Processed \<lparr>totalRecords = None, successCount = 0, errorCount = 0, errors = []\<rparr>,
           Some \<lparr>userType = ''admin-staff'', uploadStatus = ''success'',
                 summary = \<lparr>totalRecords = None, successCount = 0, errorCount = 0,
                             errors = []\<rparr>\<rparr>,
           d)
      | Some message \<Rightarrow> (Failure 500 ''Error processing file'', None, d))"
    by (rule uploadAdminStaff_any)
  moreover have "uploadSupportStaff p (Some up) d =
     (case historyError p
             \<lparr>userType = ''support-staff'', uploadStatus = ''success'',
              summary = \<lparr>totalRecords = None, successCount = 0, errorCount = 0,
                          errors = []\<rparr>\<rparr> of
        None \<Rightarrow>
          (Processed \<lparr>totalRecords = None, successCount = 0, errorCount = 0, errors = []\<rparr>,
           Some \<lparr>userType = ''support-staff'', uploadStatus = ''success'',
                 summary = \<lparr>totalRecords = None, successCount = 0, errorCount = 0,
                             errors = []\<rparr>\<rparr>,
           d)
      | Some message \<Rightarrow> (Failure 500 ''Error processing file'', None, d))"
    by (rule uploadSupportStaff_any)
  ultimately show ?thesis by (intro conjI)
qed

text \<open>
  C5 does not hold: on a file whose first row repeats an existing e-mail address and
  whose second row repeats an existing employee id, the row body would fail the rows
  with \<open>Email already exists\<close> and \<open>Employee ID already exists\<close>, but neither staff
  importer runs it: both answer with no error at all.
\<close>

theorem staff_duplicates_not_checked:
  "parseFile
     (CsvFile (Inr (''firstName,lastName,email,employeeId,phoneNumber,qualification,experience,position,department,gender,salary''
      @ [LF] @ ''Ann,Lee,a@b.io,E2,555,MSc,3,Clerk,Office,female,100''
      @ [LF] @ ''Bob,Ray,c@d.io,E1,556,BSc,2,Clerk,Office,male,90''))) =
     Inr [[(''firstName'', Str ''Ann''), (''lastName'', Str ''Lee''), (''email'', Str ''a@b.io''),
           (''employeeId'', Str ''E2''), (''phoneNumber'', Str ''555''), (''qualification'', Str ''MSc''),
           (''experience'', Str ''3''), (''position'', Str ''Clerk''), (''department'', Str ''Office''),
           (''gender'', Str ''female''), (''salary'', Str ''100'')],
          [(''firstName'', Str ''Bob''), (''lastName'', Str ''Ray''), (''email'', Str ''c@d.io''),
           (''employeeId'', Str ''E1''), (''phoneNumber'', Str ''556''), (''qualification'', Str ''BSc''),
           (''experience'', Str ''2''), (''position'', Str ''Clerk''), (''department'', Str ''Office''),
           (''gender'', Str ''male''), (''salary'', Str ''90'')]] \<and>
   adminStaffRow \<lparr>userError = \<lambda>d r. None, profileError = \<lambda>d r. None, historyError = \<lambda>h. None,
      castError = \<lambda>v. None\<rparr>
     \<lparr>users = [''a@b.io''], studentRolls = [], teachers = [], adminStaff = [''E1''],
      supportStaff = [''E1'']\<rparr>
     [(''firstName'', Str ''Ann''), (''lastName'', Str ''Lee''), (''email'', Str ''a@b.io''),
      (''employeeId'', Str ''E2''), (''phoneNumber'', Str ''555''), (''qualification'', Str ''MSc''),
      (''experience'', Str ''3''), (''position'', Str ''Clerk''), (''department'', Str ''Office''),
      (''gender'', Str ''female''), (''salary'', Str ''100'')] =
     (\<lparr>users = [''a@b.io''], studentRolls = [], teachers = [], adminStaff = [''E1''],
       supportStaff = [''E1'']\<rparr>, Some ''Email already exists'') \<and>
   adminStaffRow \<lparr>userError = \<lambda>d r. None, profileError = \<lambda>d r. None, historyError = \<lambda>h. None,
      castError = \<lambda>v. None\<rparr>
     \<lparr>users = [''a@b.io''], studentRolls = [], teachers = [], adminStaff = [''E1''],
      supportStaff = [''E1'']\<rparr>
     [(''firstName'', Str ''Bob''), (''lastName'', Str ''Ray''), (''email'', Str ''c@d.io''),
      (''employeeId'', Str ''E1''), (''phoneNumber'', Str ''556''), (''qualification'', Str ''BSc''),
      (''experience'', Str ''2''), (''position'', Str ''Clerk''), (''department'', Str ''Office''),
      (''gender'', Str ''male''), (''salary'', Str ''90'')] =
     (\<lparr>users = [''a@b.io''], studentRolls = [], teachers = [], adminStaff = [''E1''],
       supportStaff = [''E1'']\<rparr>, Some ''Employee ID already exists'') \<and>
   uploadAdminStaff \<lparr>userError = \<lambda>d r. None, profileError = \<lambda>d r. None, historyError = \<lambda>h. None,
      castError = \<lambda>v. None\<rparr>
     (Some (CsvFile (Inr (''firstName,lastName,email,employeeId,phoneNumber,qualification,experience,position,department,gender,salary''
      @ [LF] @ ''Ann,Lee,a@b.io,E2,555,MSc,3,Clerk,Office,female,100''
      @ [LF] @ ''Bob,Ray,c@d.io,E1,556,BSc,2,Clerk,Office,male,90''))))
     \<lparr>users = [''a@b.io''], studentRolls = [], teachers = [], adminStaff = [''E1''],
      supportStaff = [''E1'']\<rparr> =
     (Processed \<lparr>totalRecords = None, successCount = 0, errorCount = 0, errors = []\<rparr>,
      Some \<lparr>userType = ''admin-staff'', uploadStatus = ''success'',
            summary = \<lparr>totalRecords = None, successCount = 0, errorCount = 0, errors = []\<rparr>\<rparr>,
      \<lparr>users = [''a@b.io''], studentRolls = [], teachers = [], adminStaff = [''E1''],
       supportStaff = [''E1'']\<rparr>) \<and>
   uploadSupportStaff \<lparr>userError = \<lambda>d r. None, profileError = \<lambda>d r. None, historyError = \<lambda>h. None,
      castError = \<lambda>v. None\<rparr>
     (Some (CsvFile (Inr (''firstName,lastName,email,employeeId,phoneNumber,qualification,experience,position,department,gender,salary''
      @ [LF] @ ''Ann,Lee,a@b.io,E2,555,MSc,3,Clerk,Office,female,100''
      @ [LF] @ ''Bob,Ray,c@d.io,E1,556,BSc,2,Clerk,Office,male,90''))))
     \<lparr>users = [''a@b.io''], studentRolls = [], teachers = [], adminStaff = [''E1''],
      supportStaff = [''E1'']\<rparr> =
     (Processed \<lparr>totalRecords = None, successCount = 0, errorCount = 0, errors = []\<rparr>,
      Some \<lparr>userType = ''support-staff'', uploadStatus = ''success'',
            summary = \<lparr>totalRecords = None, successCount = 0, errorCount = 0, errors = []\<rparr>\<rparr>,
      \<lparr>users = [''a@b.io''], studentRolls = [], teachers = [], adminStaff = [''E1''],
       supportStaff = [''E1'']\<rparr>)"
  by code_simp

subsection \<open>Generated addresses\<close>










end
